theory Spec2Isabelle
  imports Complex_Main
begin

section \<open>Python values, object identity and errors\<close>

text \<open>
  The module \<open>sciwebvis/figure.py\<close> is Python 2 code (\<open>viewitems\<close>, \<open>has_key\<close>).
  Its registries compare objects with \<open>is\<close>, so every object of the model carries an
  identity next to its value. Objects made by the caller and objects made inside the
  module (the default materials of \<open>Scatter\<close> and \<open>Surface\<close>) have identities of two
  different shapes, so that a new object of the module is never the same object as one
  the caller holds.
\<close>

type_synonym uuid = string

datatype oid = Caller nat | Lib nat

datatype mclass = Material | PointMaterial | WireframeMaterial

datatype pyval =
    Ndarray "int list"
  | NdarraySub "int list"
  | MaterialObj mclass uuid
  | PyStr string
  | PyInt int
  | PyTuple2 int int
  | ColorObj rat
  | PyDict "(string \<times> int) list"
  | PyNone

text \<open>
  \<open>Ndarray\<close> is an object whose type is exactly \<open>numpy.ndarray\<close> (its elements
  flattened), \<open>NdarraySub\<close> an instance of a proper subclass of it (such as
  \<open>numpy.matrix\<close>). \<open>MaterialObj c i\<close> is an instance of \<open>material.Material\<close> or of
  one of its subclasses, with the value of its \<open>ID\<close> attribute.
\<close>

record pyobj =
  ident :: oid
  val :: pyval

datatype pyerror =
  TypeError string | Exception string | AttributeError string | KeyError string

definition py_is :: "pyobj \<Rightarrow> pyobj \<Rightarrow> bool" where
  "py_is a b \<longleftrightarrow> ident a = ident b"

definition py_eq :: "pyobj \<Rightarrow> pyobj \<Rightarrow> bool" where
  "py_eq a b \<longleftrightarrow> val a = val b"

text \<open>The test \<open>type(data) != np.ndarray\<close> accepts the exact type only.\<close>

definition type_is_ndarray :: "pyobj \<Rightarrow> bool" where
  "type_is_ndarray x = (case val x of Ndarray _ \<Rightarrow> True | _ \<Rightarrow> False)"

definition isinstance_Material :: "pyobj \<Rightarrow> bool" where
  "isinstance_Material x = (case val x of MaterialObj _ _ \<Rightarrow> True | _ \<Rightarrow> False)"

text \<open>Reading the attribute \<open>ID\<close> of an object that is no material raises.\<close>

definition Material_ID :: "pyobj \<Rightarrow> pyerror + uuid" where
  "Material_ID m =
     (case val m of MaterialObj _ i \<Rightarrow> Inr i
      | _ \<Rightarrow> Inl (AttributeError ''object has no attribute ID''))"

section \<open>Dictionaries\<close>

text \<open>
  A \<open>dict\<close> is an association list; its order stands for the iteration order of
  \<open>viewitems\<close>. Assignment to a key that is present replaces the value in place, to a
  new key adds an entry. Python fixes no iteration order; the facts proved below hold for
  every state with the stated properties, whatever the order of its entries.
\<close>

definition has_key :: "('k \<times> 'v) list \<Rightarrow> 'k \<Rightarrow> bool" where
  "has_key d k \<longleftrightarrow> k \<in> set (map fst d)"

fun setitem :: "('k \<times> 'v) list \<Rightarrow> 'k \<Rightarrow> 'v \<Rightarrow> ('k \<times> 'v) list" where
  "setitem [] k v = [(k, v)]"
| "setitem (p # ps) k v = (if fst p = k then (k, v) # ps else p # setitem ps k v)"

definition pop_default :: "(string \<times> 'v) list \<Rightarrow> string \<Rightarrow> 'v \<Rightarrow> 'v" where
  "pop_default kwargs k dflt = (case map_of kwargs k of Some v \<Rightarrow> v | None \<Rightarrow> dflt)"

text \<open>\<open>del d[k]\<close> raises \<open>KeyError\<close> for a key that is absent.\<close>

definition delitem :: "(string \<times> 'v) list \<Rightarrow> string \<Rightarrow> pyerror + (string \<times> 'v) list" where
  "delitem d k = (if has_key d k then Inr (filter (\<lambda>p. fst p \<noteq> k) d) else Inl (KeyError k))"

text \<open>
  A call \<open>f(a, b, **kwargs)\<close> binds its positional arguments first. A key of \<open>kwargs\<close>
  that is the name of a parameter bound already makes the call raise \<open>TypeError\<close>
  before the body of \<open>f\<close> runs; the error names the first such key.
\<close>

definition keyword_clash :: "string list \<Rightarrow> (string \<times> 'v) list \<Rightarrow> string option" where
  "keyword_clash params kwargs = find (\<lambda>k. k \<in> set params) (map fst kwargs)"

definition multiple_values :: "string \<Rightarrow> string \<Rightarrow> pyerror" where
  "multiple_values f k =
     TypeError (f @ ''() got multiple values for keyword argument '' @
                [CHR 0x27] @ k @ [CHR 0x27])"

text \<open>
  The loops \<open>for d in dict.viewitems(): if d[1] is x: return ...\<close> of \<open>addData\<close> and
  \<open>addMaterial\<close>: the first item whose value is the object \<open>x\<close>.
\<close>

fun find_is :: "(uuid \<times> pyobj) list \<Rightarrow> pyobj \<Rightarrow> (uuid \<times> pyobj) option" where
  "find_is [] x = None"
| "find_is (d # ds) x = (if py_is (snd d) x then Some d else find_is ds x)"

section \<open>The scene graph\<close>

text \<open>
  A render object has two fields, \<open>__dataID\<close> and the entry \<open>material\<close> of its
  \<open>__properties\<close>; its back-reference to the Axes is used in the constructor only. An
  Axes has its list of render objects and its \<open>__properties\<close>; its back-reference to the
  figure is the figure of the state.
\<close>

datatype RenderObject = Scatter uuid pyobj | Surface uuid pyobj

record Axes =
  renderObjects :: "RenderObject list"
  properties :: "(string \<times> pyval) list"

record Figure =
  ID :: pyval
  axes :: "Axes list"
  dataDict :: "(uuid \<times> pyobj) list"
  materialDict :: "(uuid \<times> pyobj) list"

text \<open>
  The state around a figure: how many identifiers \<open>uuid.uuid4()\<close> has handed out
  (the generator itself is a parameter \<open>gen\<close>, its \<open>n\<close>-th result being \<open>gen n\<close>), how
  many objects the module has allocated, and the trace of the calls of the materials'
  hook \<open>addToFigure\<close> (the material and the figure's \<open>ID\<close> at the time of the call).
  An \<open>Axes\<close> is named by its position in the figure's list.
\<close>

record world =
  fig :: Figure
  uuid_ctr :: nat
  lib_ctr :: nat
  hook_calls :: "(pyobj \<times> pyval) list"

definition Figure_init :: "(nat \<Rightarrow> uuid) \<Rightarrow> nat \<Rightarrow> Figure \<times> nat" where
  "Figure_init gen n =
     (\<lparr>ID = PyStr (gen n), axes = [], dataDict = [], materialDict = []\<rparr>, Suc n)"

definition init_world :: "(nat \<Rightarrow> uuid) \<Rightarrow> world" where
  "init_world gen =
     (case Figure_init gen 0 of
        (f, n) \<Rightarrow> \<lparr>fig = f, uuid_ctr = n, lib_ctr = 0, hook_calls = []\<rparr>)"

subsection \<open>Properties of Figure\<close>

text \<open>
  An assignment \<open>fig.ID = v\<close> or \<open>fig.data = v\<close> runs the setter of the property.
  (The base class \<open>JSRenderable\<close> is not part of the sources at hand; it is taken to
  be a new-style class, as properties with setters need in Python 2.) A setter that
  raises is a result \<open>Inl\<close>; the state is returned next to it.
\<close>

definition Figure_ID_get :: "world \<Rightarrow> pyval" where
  "Figure_ID_get w = ID (fig w)"

definition Figure_ID_set :: "pyobj \<Rightarrow> world \<Rightarrow> (pyerror + unit) \<times> world" where
  "Figure_ID_set v w = (Inr (), w\<lparr>fig := (fig w)\<lparr>ID := val v\<rparr>\<rparr>)"

definition Figure_data_set :: "pyobj \<Rightarrow> world \<Rightarrow> (pyerror + unit) \<times> world" where
  "Figure_data_set v w = (Inl (Exception ''data source dictionary cannot be set''), w)"

text \<open>
  The getter of \<open>data\<close> returns \<open>self.__dataDict\<close> itself, not a copy. Its result is
  therefore a reference to the registry: reading the dictionary it names reads the
  registry, and \<open>clear()\<close>, \<open>del d[k]\<close> and \<open>d[k] = v\<close> on that dictionary change the
  registry. The material registry is handed out by no method.
\<close>

datatype dictref = DataDict

definition Figure_data_get :: "world \<Rightarrow> dictref" where
  "Figure_data_get w = DataDict"

fun dict_items :: "dictref \<Rightarrow> world \<Rightarrow> (uuid \<times> pyobj) list" where
  "dict_items DataDict w = dataDict (fig w)"

fun dict_clear :: "dictref \<Rightarrow> world \<Rightarrow> (pyerror + unit) \<times> world" where
  "dict_clear DataDict w = (Inr (), w\<lparr>fig := (fig w)\<lparr>dataDict := []\<rparr>\<rparr>)"

fun dict_delitem :: "dictref \<Rightarrow> uuid \<Rightarrow> world \<Rightarrow> (pyerror + unit) \<times> world" where
  "dict_delitem DataDict k w =
     (case delitem (dataDict (fig w)) k of
        Inl e \<Rightarrow> (Inl e, w)
      | Inr d \<Rightarrow> (Inr (), w\<lparr>fig := (fig w)\<lparr>dataDict := d\<rparr>\<rparr>))"

fun dict_setitem :: "dictref \<Rightarrow> uuid \<Rightarrow> pyobj \<Rightarrow> world \<Rightarrow> (pyerror + unit) \<times> world" where
  "dict_setitem DataDict k v w =
     (Inr (), w\<lparr>fig := (fig w)\<lparr>dataDict := setitem (dataDict (fig w)) k v\<rparr>\<rparr>)"

subsection \<open>Figure.addData\<close>

text \<open>
  The loop \<open>while self.__dataDict.has_key(dataUUID): dataUUID = str(uuid.uuid4())\<close>.
  It runs for as long as the generator repeats keys of the dictionary, so its result is
  an \<open>option\<close>: \<open>None\<close> is a loop that never ends.
\<close>

partial_function (option) fresh_key ::
  "(nat \<Rightarrow> uuid) \<Rightarrow> (uuid \<times> pyobj) list \<Rightarrow> uuid \<Rightarrow> nat \<Rightarrow> (uuid \<times> nat) option" where
  "fresh_key gen d dataUUID n =
     (if has_key d dataUUID then fresh_key gen d (gen n) (Suc n) else Some (dataUUID, n))"

declare fresh_key.simps [code]

definition Figure_addData ::
  "(nat \<Rightarrow> uuid) \<Rightarrow> pyobj \<Rightarrow> world \<Rightarrow> ((pyerror + uuid) \<times> world) option" where
  "Figure_addData gen data w =
     (if \<not> type_is_ndarray data
      then Some (Inl (TypeError ''Expecting Numpy ndarray object''), w)
      else case find_is (dataDict (fig w)) data of
             Some d \<Rightarrow> Some (Inr (fst d), w)
           | None \<Rightarrow>
               (case fresh_key gen (dataDict (fig w)) (gen (uuid_ctr w)) (Suc (uuid_ctr w)) of
                  None \<Rightarrow> None
                | Some (dataUUID, n) \<Rightarrow>
                    Some (Inr dataUUID,
                          w\<lparr>fig := (fig w)\<lparr>dataDict := setitem (dataDict (fig w)) dataUUID data\<rparr>,
                            uuid_ctr := n\<rparr>)))"

subsection \<open>Figure.addMaterial\<close>

text \<open>
  Modelled from the spec: the hook \<open>Material.addToFigure(figure)\<close> of the module
  \<open>material\<close>, which is not part of the sources at hand. The spec gives it as a hook that
  wires the material to the figure and returns nothing; the model records the call and
  leaves the figure as it is.
\<close>

definition Material_addToFigure :: "pyobj \<Rightarrow> world \<Rightarrow> world" where
  "Material_addToFigure m w = w\<lparr>hook_calls := hook_calls w @ [(m, ID (fig w))]\<rparr>"

definition Figure_addMaterial :: "pyobj \<Rightarrow> world \<Rightarrow> (pyerror + pyobj) \<times> world" where
  "Figure_addMaterial m w =
     (if \<not> isinstance_Material m
      then (Inl (TypeError ''Expecting Material object''), w)
      else case find_is (materialDict (fig w)) m of
             Some mat \<Rightarrow> (Inr (snd mat), w)
           | None \<Rightarrow>
               (let w1 = Material_addToFigure m w
                in case Material_ID m of
                     Inl e \<Rightarrow> (Inl e, w1)
                   | Inr mID \<Rightarrow>
                       (Inr m,
                        w1\<lparr>fig := (fig w1)\<lparr>materialDict :=
                                              setitem (materialDict (fig w1)) mID m\<rparr>\<rparr>)))"

subsection \<open>Axes\<close>

text \<open>
  \<open>Axes.__init__\<close> fills the two properties from \<open>kwargs\<close> or with their defaults,
  \<open>(800, 800)\<close> and \<open>Color(0.9375)\<close>. (The class \<open>Color\<close> is not part of the sources at
  hand; its instances are opaque values here.) \<open>Figure.addAxes\<close> returns the new Axes:
  its position in the figure's list, by which later calls name it, and its value.
\<close>

definition Axes_init :: "(string \<times> pyobj) list \<Rightarrow> Axes" where
  "Axes_init kwargs =
     \<lparr>renderObjects = [],
      properties =
        setitem
          (setitem [] ''size''
             (pop_default (map (\<lambda>(k, v). (k, val v)) kwargs) ''size'' (PyTuple2 800 800)))
          ''bgcolor''
          (pop_default (map (\<lambda>(k, v). (k, val v)) kwargs) ''bgcolor'' (ColorObj (15 / 16)))\<rparr>"

text \<open>
  The call \<open>Axes(self, **kwargs)\<close> of \<open>addAxes\<close>: the parameters \<open>self\<close> and \<open>fig\<close> of
  \<open>Axes.__init__\<close> are bound by position, so a keyword of either name raises.
\<close>

definition Axes_params :: "string list" where
  "Axes_params = [''self'', ''fig'']"

definition Axes_new :: "(string \<times> pyobj) list \<Rightarrow> pyerror + Axes" where
  "Axes_new kwargs =
     (case keyword_clash Axes_params kwargs of
        Some k \<Rightarrow> Inl (multiple_values ''__init__'' k)
      | None \<Rightarrow> Inr (Axes_init kwargs))"

definition Figure_addAxes ::
  "(string \<times> pyobj) list \<Rightarrow> world \<Rightarrow> (pyerror + nat \<times> Axes) \<times> world" where
  "Figure_addAxes kwargs w =
     (case Axes_new kwargs of
        Inl e \<Rightarrow> (Inl e, w)
      | Inr ax \<Rightarrow>
          (Inr (length (axes (fig w)), ax),
           w\<lparr>fig := (fig w)\<lparr>axes := axes (fig w) @ [ax]\<rparr>\<rparr>))"

definition Axes_data_get :: "world \<Rightarrow> dictref" where
  "Axes_data_get w = Figure_data_get w"

definition Axes_data_set :: "pyobj \<Rightarrow> world \<Rightarrow> (pyerror + unit) \<times> world" where
  "Axes_data_set v w = (Inl (Exception ''data source dictionary cannot be set''), w)"

definition Axes_addData ::
  "(nat \<Rightarrow> uuid) \<Rightarrow> pyobj \<Rightarrow> world \<Rightarrow> ((pyerror + uuid) \<times> world) option" where
  "Axes_addData gen data w = Figure_addData gen data w"

definition Axes_addMaterial :: "pyobj \<Rightarrow> world \<Rightarrow> (pyerror + pyobj) \<times> world" where
  "Axes_addMaterial m w = Figure_addMaterial m w"

text \<open>\<open>self.__renderObjects.append(obj)\<close> on the Axes at position \<open>i\<close>.\<close>

definition append_renderObject :: "nat \<Rightarrow> RenderObject \<Rightarrow> world \<Rightarrow> world" where
  "append_renderObject i obj w =
     w\<lparr>fig := (fig w)\<lparr>axes :=
        (axes (fig w))[i := (axes (fig w) ! i)
                         \<lparr>renderObjects := renderObjects (axes (fig w) ! i) @ [obj]\<rparr>]\<rparr>\<rparr>"

text \<open>
  The methods below that write to the Axes itself take its position; a position beyond
  the figure's list names no Axes, and such a call has no result.
\<close>

definition Axes_addRenderObject ::
  "nat \<Rightarrow> RenderObject \<Rightarrow> world \<Rightarrow> ((pyerror + pyval) \<times> world) option" where
  "Axes_addRenderObject i obj w =
     (if i < length (axes (fig w)) then Some (Inr PyNone, append_renderObject i obj w)
      else None)"

subsection \<open>Scatter and Surface\<close>

text \<open>
  Modelled from the spec: the constructors \<open>material.PointMaterial()\<close> and
  \<open>material.WireframeMaterial()\<close> of the module \<open>material\<close>, which is not part of the
  sources at hand. The spec gives them as the default materials of the two kinds of
  render object, each a material with a unique \<open>id\<close>; here a new object of the module
  whose \<open>ID\<close> is the next identifier of the generator.
\<close>

definition new_Material :: "mclass \<Rightarrow> (nat \<Rightarrow> uuid) \<Rightarrow> world \<Rightarrow> pyobj \<times> world" where
  "new_Material c gen w =
     (\<lparr>ident = Lib (lib_ctr w), val = MaterialObj c (gen (uuid_ctr w))\<rparr>,
      w\<lparr>uuid_ctr := Suc (uuid_ctr w), lib_ctr := Suc (lib_ctr w)\<rparr>)"

text \<open>
  \<open>__init__\<close> of Scatter and of Surface differ in the class of the default material
  only. The default is an argument of \<open>kwargs.pop\<close>, so it is constructed whether or not
  the caller gives a material. The calls \<open>Scatter(self, vertex, **kwargs)\<close> and
  \<open>Surface(self, vertex, **kwargs)\<close> bind \<open>self\<close>, \<open>axes\<close> and \<open>vertex\<close> by position: a
  keyword of one of these names raises before the body runs.
\<close>

definition RenderObject_params :: "string list" where
  "RenderObject_params = [''self'', ''axes'', ''vertex'']"

definition RenderObject_init ::
  "(uuid \<Rightarrow> pyobj \<Rightarrow> RenderObject) \<Rightarrow> mclass \<Rightarrow> (nat \<Rightarrow> uuid) \<Rightarrow> pyobj \<Rightarrow>
   (string \<times> pyobj) list \<Rightarrow> world \<Rightarrow> ((pyerror + RenderObject) \<times> world) option" where
  "RenderObject_init mk c gen vertex kwargs w =
     (case keyword_clash RenderObject_params kwargs of
        Some k \<Rightarrow> Some (Inl (multiple_values ''__init__'' k), w)
      | None \<Rightarrow>
     (case Axes_addData gen vertex w of
        None \<Rightarrow> None
      | Some (Inl e, w1) \<Rightarrow> Some (Inl e, w1)
      | Some (Inr dataID, w1) \<Rightarrow>
          (case new_Material c gen w1 of
             (dflt, w2) \<Rightarrow>
               (let m = pop_default kwargs ''material'' dflt
                in case Axes_addMaterial m w2 of
                     (Inl e, w3) \<Rightarrow> Some (Inl e, w3)
                   | (Inr _, w3) \<Rightarrow> Some (Inr (mk dataID m), w3)))))"

definition Scatter_init ::
  "(nat \<Rightarrow> uuid) \<Rightarrow> pyobj \<Rightarrow> (string \<times> pyobj) list \<Rightarrow> world \<Rightarrow>
   ((pyerror + RenderObject) \<times> world) option" where
  "Scatter_init = RenderObject_init Scatter PointMaterial"

definition Surface_init ::
  "(nat \<Rightarrow> uuid) \<Rightarrow> pyobj \<Rightarrow> (string \<times> pyobj) list \<Rightarrow> world \<Rightarrow>
   ((pyerror + RenderObject) \<times> world) option" where
  "Surface_init = RenderObject_init Surface WireframeMaterial"

text \<open>
  The bodies of \<open>scatter\<close> and \<open>surface\<close>: \<open>kwargs\<close> is the dictionary that the body
  receives, which it hands to the constructor after the test of the vertex.
\<close>

definition Axes_scatter ::
  "(nat \<Rightarrow> uuid) \<Rightarrow> nat \<Rightarrow> pyobj \<Rightarrow> (string \<times> pyobj) list \<Rightarrow> world \<Rightarrow>
   ((pyerror + pyval) \<times> world) option" where
  "Axes_scatter gen i vertex kwargs w =
     (if \<not> i < length (axes (fig w)) then None
      else if \<not> type_is_ndarray vertex
      then Some (Inl (TypeError ''Expecting a Numpy NDArray object''), w)
      else case Scatter_init gen vertex kwargs w of
             None \<Rightarrow> None
           | Some (Inl e, w1) \<Rightarrow> Some (Inl e, w1)
           | Some (Inr obj, w1) \<Rightarrow> Some (Inr PyNone, append_renderObject i obj w1))"

definition Axes_surface ::
  "(nat \<Rightarrow> uuid) \<Rightarrow> nat \<Rightarrow> pyobj \<Rightarrow> (string \<times> pyobj) list \<Rightarrow> world \<Rightarrow>
   ((pyerror + pyval) \<times> world) option" where
  "Axes_surface gen i vertex kwargs w =
     (if \<not> i < length (axes (fig w)) then None
      else if \<not> type_is_ndarray vertex
      then Some (Inl (TypeError ''Expecting a Numpy NDArray object''), w)
      else case Surface_init gen vertex kwargs w of
             None \<Rightarrow> None
           | Some (Inl e, w1) \<Rightarrow> Some (Inl e, w1)
           | Some (Inr obj, w1) \<Rightarrow> Some (Inr PyNone, append_renderObject i obj w1))"

section \<open>Rendering\<close>

text \<open>
  The template engine, the array encoder \<open>numjis.toJson\<close> and the materials'
  \<open>render\<close> are collaborators outside the module: each is a parameter, one field per
  template file.
\<close>

record templates =
  toJson :: "pyobj \<Rightarrow> string"
  Material_render :: "pyobj \<Rightarrow> string"
  datasource_js :: "(uuid \<times> string) list \<Rightarrow> string"
  materials_js :: "(uuid \<times> string) list \<Rightarrow> string"
  figure_js :: "pyval \<Rightarrow> string"
  axes_js :: "string list \<Rightarrow> (string \<times> pyval) list \<Rightarrow> string"
  scatter_js :: "uuid \<Rightarrow> uuid \<Rightarrow> string"
  surface_js :: "uuid \<Rightarrow> uuid \<Rightarrow> string"

fun RenderObject_render :: "templates \<Rightarrow> RenderObject \<Rightarrow> pyerror + string" where
  "RenderObject_render T (Scatter dataID m) =
     (case Material_ID m of Inl e \<Rightarrow> Inl e | Inr mID \<Rightarrow> Inr (scatter_js T dataID mID))"
| "RenderObject_render T (Surface dataID m) =
     (case Material_ID m of Inl e \<Rightarrow> Inl e | Inr mID \<Rightarrow> Inr (surface_js T dataID mID))"

text \<open>The loops \<open>for x in xs: out.append(x.render())\<close>; the first error ends them.\<close>

fun render_each :: "('a \<Rightarrow> pyerror + string) \<Rightarrow> 'a list \<Rightarrow> pyerror + string list" where
  "render_each r [] = Inr []"
| "render_each r (x # xs) =
     (case r x of
        Inl e \<Rightarrow> Inl e
      | Inr js \<Rightarrow> (case render_each r xs of Inl e \<Rightarrow> Inl e | Inr jss \<Rightarrow> Inr (js # jss)))"

definition Axes_render :: "templates \<Rightarrow> Axes \<Rightarrow> pyerror + string" where
  "Axes_render T a =
     (case render_each (RenderObject_render T) (renderObjects a) of
        Inl e \<Rightarrow> Inl e
      | Inr JSrenderObj \<Rightarrow> Inr (concat [axes_js T JSrenderObj (properties a)]))"

text \<open>The dictionaries built item by item for the two templates.\<close>

definition dict_of_items :: "('v \<Rightarrow> string) \<Rightarrow> (uuid \<times> 'v) list \<Rightarrow> (uuid \<times> string) list" where
  "dict_of_items f d = foldl (\<lambda>acc item. setitem acc (fst item) (f (snd item))) [] d"

definition Figure_render :: "templates \<Rightarrow> world \<Rightarrow> pyerror + string" where
  "Figure_render T w =
     (let dataDictJson = dict_of_items (toJson T) (dataDict (fig w));
          dataJS = datasource_js T dataDictJson;
          materialDictJS = dict_of_items (Material_render T) (materialDict (fig w));
          materialJS = materials_js T materialDictJS;
          figJS = figure_js T (ID (fig w))
      in case render_each (Axes_render T) (axes (fig w)) of
           Inl e \<Rightarrow> Inl e
         | Inr axesJS \<Rightarrow> Inr (concat ([dataJS, materialJS, figJS] @ axesJS)))"

section \<open>Sequences of calls\<close>

text \<open>
  The calls a client can make on a figure and its Axes, and the state after a call,
  whether the call returned or raised. \<open>None\<close> is a call that does not come back.
  The last three are no methods of the module: they are what a client can do to the
  dictionary that the property \<open>data\<close> has handed out (\<open>fig.data.clear()\<close>,
  \<open>del fig.data[k]\<close>, \<open>fig.data[k] = v\<close>).
\<close>

datatype call =
    AddData pyobj
  | AddMaterial pyobj
  | AddAxes "(string \<times> pyobj) list"
  | CallScatter nat pyobj "(string \<times> pyobj) list"
  | CallSurface nat pyobj "(string \<times> pyobj) list"
  | AddRenderObject nat RenderObject
  | SetID pyobj
  | SetFigureData pyobj
  | SetAxesData pyobj
  | DataClear
  | DataDelItem uuid
  | DataSetItem uuid pyobj

fun exec :: "(nat \<Rightarrow> uuid) \<Rightarrow> call \<Rightarrow> world \<Rightarrow> world option" where
  "exec gen (AddData b) w = map_option snd (Figure_addData gen b w)"
| "exec gen (AddMaterial m) w = Some (snd (Figure_addMaterial m w))"
| "exec gen (AddAxes kwargs) w = Some (snd (Figure_addAxes kwargs w))"
| "exec gen (CallScatter i v kwargs) w = map_option snd (Axes_scatter gen i v kwargs w)"
| "exec gen (CallSurface i v kwargs) w = map_option snd (Axes_surface gen i v kwargs w)"
| "exec gen (AddRenderObject i obj) w = map_option snd (Axes_addRenderObject i obj w)"
| "exec gen (SetID v) w = Some (snd (Figure_ID_set v w))"
| "exec gen (SetFigureData v) w = Some (snd (Figure_data_set v w))"
| "exec gen (SetAxesData v) w = Some (snd (Axes_data_set v w))"
| "exec gen DataClear w = Some (snd (dict_clear (Figure_data_get w) w))"
| "exec gen (DataDelItem k) w = Some (snd (dict_delitem (Figure_data_get w) k w))"
| "exec gen (DataSetItem k v) w = Some (snd (dict_setitem (Figure_data_get w) k v w))"

text \<open>The calls that are methods and property assignments of the module itself.\<close>

fun method_call :: "call \<Rightarrow> bool" where
  "method_call DataClear = False"
| "method_call (DataDelItem k) = False"
| "method_call (DataSetItem k v) = False"
| "method_call c = True"

fun run :: "(nat \<Rightarrow> uuid) \<Rightarrow> call list \<Rightarrow> world \<Rightarrow> world option" where
  "run gen [] w = Some w"
| "run gen (c # cs) w = (case exec gen c w of None \<Rightarrow> None | Some w' \<Rightarrow> run gen cs w')"

text \<open>\<open>addData\<close> called on each buffer of a list in turn, with the results collected.\<close>

fun addData_each ::
  "(nat \<Rightarrow> uuid) \<Rightarrow> pyobj list \<Rightarrow> world \<Rightarrow> ((pyerror + uuid) list \<times> world) option" where
  "addData_each gen [] w = Some ([], w)"
| "addData_each gen (b # bs) w =
     (case Figure_addData gen b w of
        None \<Rightarrow> None
      | Some (r, w1) \<Rightarrow>
          (case addData_each gen bs w1 of
             None \<Rightarrow> None
           | Some (rs, w2) \<Rightarrow> Some (r # rs, w2)))"

section \<open>Well-formed states\<close>

text \<open>
  A Python dictionary has no key twice. Every render object that \<open>Scatter\<close> or
  \<open>Surface\<close> constructs holds a material, since the constructor raises otherwise.
\<close>

definition dicts_ok :: "world \<Rightarrow> bool" where
  "dicts_ok w \<longleftrightarrow>
     distinct (map fst (dataDict (fig w))) \<and> distinct (map fst (materialDict (fig w)))"

fun material_of :: "RenderObject \<Rightarrow> pyobj" where
  "material_of (Scatter dataID m) = m"
| "material_of (Surface dataID m) = m"

definition objects_ok :: "world \<Rightarrow> bool" where
  "objects_ok w \<longleftrightarrow>
     list_all (\<lambda>a. list_all (\<lambda>obj. isinstance_Material (material_of obj)) (renderObjects a))
       (axes (fig w))"

section \<open>Concrete objects\<close>

text \<open>A generator that never repeats, two arrays with equal contents, a material.\<close>

definition gen0 :: "nat \<Rightarrow> uuid" where
  "gen0 n = replicate (Suc n) (CHR ''u'')"

definition arr1 :: pyobj where
  "arr1 = \<lparr>ident = Caller 1, val = Ndarray [1, 2, 3]\<rparr>"

definition arr2 :: pyobj where
  "arr2 = \<lparr>ident = Caller 2, val = Ndarray [1, 2, 3]\<rparr>"

definition mat1 :: pyobj where
  "mat1 = \<lparr>ident = Caller 3, val = MaterialObj Material ''m1''\<rparr>"

definition str1 :: pyobj where
  "str1 = \<lparr>ident = Caller 4, val = PyStr ''not an array''\<rparr>"

definition world1 :: world where
  "world1 = snd (Figure_addAxes [] (init_world gen0))"

definition world2 :: world where
  "world2 = world1\<lparr>fig := (fig world1)\<lparr>dataDict := [(''uu'', arr1)]\<rparr>, uuid_ctr := 2\<rparr>"

definition world3 :: world where
  "world3 = world1\<lparr>fig := (fig world1)\<lparr>materialDict := [(''m1'', mat1)]\<rparr>,
                   hook_calls := [(mat1, PyStr ''u'')]\<rparr>"

text \<open>A state in which the next identifier of the generator is a key already.\<close>

definition world4 :: world where
  "world4 = world1\<lparr>fig := (fig world1)\<lparr>dataDict := [(''uu'', arr1)]\<rparr>\<rparr>"

text \<open>
  A second material object that carries the \<open>ID\<close> of \<open>mat1\<close>, and a state in which
  both registries have an entry.
\<close>

definition mat2 :: pyobj where
  "mat2 = \<lparr>ident = Caller 7, val = MaterialObj Material ''m1''\<rparr>"

definition world9 :: world where
  "world9 = world2\<lparr>fig := (fig world2)\<lparr>materialDict := [(''m1'', mat1)]\<rparr>,
                   hook_calls := [(mat1, PyStr ''u'')]\<rparr>"

definition world10 :: world where
  "world10 =
     (case run gen0
             [AddData arr2, AddMaterial mat1, CallScatter 0 arr1 [], AddAxes [(''fig'', str1)],
              SetFigureData str1] world9 of
        Some w \<Rightarrow> w
      | None \<Rightarrow> world9)"

text \<open>
  One state has registries at least as large as another: neither dictionary has fewer
  entries, every data ID still names the buffer it named, and no key of the material
  registry is lost.
\<close>

definition registries_grow :: "world \<Rightarrow> world \<Rightarrow> bool" where
  "registries_grow w w' \<longleftrightarrow>
     length (dataDict (fig w)) \<le> length (dataDict (fig w')) \<and>
     set (dataDict (fig w)) \<subseteq> set (dataDict (fig w')) \<and>
     length (materialDict (fig w)) \<le> length (materialDict (fig w')) \<and>
     set (map fst (materialDict (fig w))) \<subseteq> set (map fst (materialDict (fig w')))"

fun is_SetID :: "call \<Rightarrow> bool" where
  "is_SetID (SetID v) = True"
| "is_SetID c = False"

text \<open>The state after \<open>scatter\<close> of an array with a string for its material.\<close>

definition world7 :: world where
  "world7 = world2\<lparr>uuid_ctr := 3, lib_ctr := 1\<rparr>"

text \<open>
  \<open>addRenderObject\<close> takes any object. The render objects that the constructors of
  \<open>Scatter\<close> and \<open>Surface\<close> return hold a material; a call is in order when it adds
  no other.
\<close>

fun call_ok :: "call \<Rightarrow> bool" where
  "call_ok (AddRenderObject i obj) = isinstance_Material (material_of obj)"
| "call_ok c = True"

text \<open>Templates that write their arguments out, and a figure with two Axes.\<close>

definition T0 :: templates where
  "T0 = \<lparr>toJson = (\<lambda>b. ''[..]''),
         Material_render = (\<lambda>m. ''{..}''),
         datasource_js = (\<lambda>d. ''DATA '' @ concat (map (\<lambda>(k, js). k @ '':'' @ js @ '' '') d)),
         materials_js = (\<lambda>d. ''MATERIALS '' @ concat (map (\<lambda>(k, js). k @ '':'' @ js @ '' '') d)),
         figure_js = (\<lambda>i. case i of PyStr s \<Rightarrow> ''FIGURE '' @ s @ '' '' | _ \<Rightarrow> ''FIGURE ''),
         axes_js = (\<lambda>objects prop. ''AXES '' @ concat objects),
         scatter_js = (\<lambda>vertex material. ''scatter '' @ vertex @ '' '' @ material @ '' ''),
         surface_js = (\<lambda>vertex material. ''surface '' @ vertex @ '' '' @ material @ '' '')\<rparr>"

definition world8 :: world where
  "world8 =
     (case run gen0 [AddAxes [], CallScatter 0 arr1 [], CallSurface 1 arr2 [(''material'', mat1)]]
             world1 of
        Some w \<Rightarrow> w
      | None \<Rightarrow> world1)"

section \<open>Lemmas about dictionaries and the registries\<close>

lemma find_is_Some: "find_is d x = Some e \<Longrightarrow> e \<in> set d \<and> py_is (snd e) x"
  by (induction d) (auto split: if_splits)

lemma find_is_None_iff: "find_is d x = None \<longleftrightarrow> (\<forall>e\<in>set d. \<not> py_is (snd e) x)"
  by (induction d) auto

lemma find_is_append:
  "find_is (d @ d') x = (case find_is d x of Some e \<Rightarrow> Some e | None \<Rightarrow> find_is d' x)"
  by (induction d) auto

lemma setitem_fresh: "\<not> has_key d k \<Longrightarrow> setitem d k v = d @ [(k, v)]"
  by (induction d) (auto simp: has_key_def)

lemma length_setitem: "length d \<le> length (setitem d k v)"
  by (induction d) auto

lemma keys_setitem: "fst ` set (setitem d k v) = insert k (fst ` set d)"
  by (induction d) auto

lemma map_fst_setitem:
  "map fst (setitem d k v) = (if has_key d k then map fst d else map fst d @ [k])"
  by (induction d) (auto simp: has_key_def)

lemma distinct_setitem: "distinct (map fst d) \<Longrightarrow> distinct (map fst (setitem d k v))"
  by (simp add: map_fst_setitem has_key_def)

lemma fresh_key_sound:
  assumes ret: "fresh_key gen d u n = Some r"
  shows "\<not> has_key d (fst r) \<and> n \<le> snd r"
proof (rule fresh_key.raw_induct [where P = "\<lambda>gen d u n r. \<not> has_key d (fst r) \<and> n \<le> snd r", OF _ ret])
  fix f gen d u n r
  assume IH: "\<And>gen d u n r. f gen d u n = Some r \<Longrightarrow> \<not> has_key d (fst r) \<and> n \<le> snd r"
    and eq: "(if has_key d u then f gen d (gen n) (Suc n) else Some (u, n)) = Some r"
  show "\<not> has_key d (fst r) \<and> n \<le> snd r"
  proof (cases "has_key d u")
    case True
    with eq have "f gen d (gen n) (Suc n) = Some r" by simp
    then have "\<not> has_key d (fst r) \<and> Suc n \<le> snd r" by (rule IH)
    then show ?thesis by simp
  next
    case False
    with eq show ?thesis by auto
  qed
qed

lemma fresh_key_total:
  "\<not> has_key d (gen (n + k)) \<Longrightarrow> \<exists>r. fresh_key gen d (gen n) (Suc n) = Some r"
proof (induction k arbitrary: n)
  case 0
  then show ?case by (simp add: fresh_key.simps)
next
  case (Suc k)
  show ?case
  proof (cases "has_key d (gen n)")
    case True
    from Suc.prems have "\<not> has_key d (gen (Suc n + k))" by simp
    then obtain r where "fresh_key gen d (gen (Suc n)) (Suc (Suc n)) = Some r"
      using Suc.IH by blast
    with True show ?thesis by (simp add: fresh_key.simps [of gen d "gen n"])
  next
    case False
    then show ?thesis by (simp add: fresh_key.simps [of gen d "gen n"])
  qed
qed

lemma addData_TypeError:
  "\<not> type_is_ndarray b \<Longrightarrow>
   Figure_addData gen b w = Some (Inl (TypeError ''Expecting Numpy ndarray object''), w)"
  by (simp add: Figure_addData_def)

lemma addData_found:
  "type_is_ndarray b \<Longrightarrow> find_is (dataDict (fig w)) b = Some e \<Longrightarrow>
   Figure_addData gen b w = Some (Inr (fst e), w)"
  by (simp add: Figure_addData_def)

lemma addData_new:
  assumes "type_is_ndarray b" and "find_is (dataDict (fig w)) b = None"
    and "Figure_addData gen b w = Some (r, w')"
  shows "\<exists>i n. r = Inr i \<and> \<not> has_key (dataDict (fig w)) i \<and> uuid_ctr w < n \<and>
           w' = w\<lparr>fig := (fig w)\<lparr>dataDict := dataDict (fig w) @ [(i, b)]\<rparr>, uuid_ctr := n\<rparr>"
proof -
  from assms obtain i n where
    fk: "fresh_key gen (dataDict (fig w)) (gen (uuid_ctr w)) (Suc (uuid_ctr w)) = Some (i, n)"
    and r: "r = Inr i"
    and w': "w' = w\<lparr>fig := (fig w)\<lparr>dataDict := setitem (dataDict (fig w)) i b\<rparr>, uuid_ctr := n\<rparr>"
    by (auto simp: Figure_addData_def split: option.splits)
  from fresh_key_sound [OF fk] have fresh: "\<not> has_key (dataDict (fig w)) i" and "uuid_ctr w < n"
    by auto
  with r w' show ?thesis by (auto simp: setitem_fresh)
qed

lemma addData_returns:
  assumes "\<not> has_key (dataDict (fig w)) (gen (uuid_ctr w + k))"
  shows "\<exists>r w'. Figure_addData gen b w = Some (r, w')"
proof -
  from fresh_key_total [of "dataDict (fig w)" gen "uuid_ctr w" k] assms obtain r where
    "fresh_key gen (dataDict (fig w)) (gen (uuid_ctr w)) (Suc (uuid_ctr w)) = Some r" by blast
  then show ?thesis
    by (cases r) (auto simp: Figure_addData_def split: option.splits)
qed

section \<open>Type rejection\<close>

text \<open>
  C7. \<open>Figure.addData\<close> raises \<open>TypeError\<close> for every argument whose type is not
  \<open>numpy.ndarray\<close>, \<open>Figure.addMaterial\<close> for every argument that is no instance of
  \<open>Material\<close>, \<open>Axes.scatter\<close> and \<open>Axes.surface\<close> for every vertex whose type is not
  \<open>numpy.ndarray\<close>. The check is the first statement of each method: the call returns
  the error at once, with the state as it was.
\<close>

theorem type_rejection:
  "(\<not> type_is_ndarray x \<longrightarrow>
      Figure_addData gen x w = Some (Inl (TypeError ''Expecting Numpy ndarray object''), w)) \<and>
   (\<not> isinstance_Material x \<longrightarrow>
      Figure_addMaterial x w = (Inl (TypeError ''Expecting Material object''), w)) \<and>
   (\<not> type_is_ndarray x \<and> i < length (axes (fig w)) \<longrightarrow>
      Axes_scatter gen i x kwargs w =
        Some (Inl (TypeError ''Expecting a Numpy NDArray object''), w)) \<and>
   (\<not> type_is_ndarray x \<and> i < length (axes (fig w)) \<longrightarrow>
      Axes_surface gen i x kwargs w =
        Some (Inl (TypeError ''Expecting a Numpy NDArray object''), w))"
  by (simp add: Figure_addData_def Figure_addMaterial_def Axes_scatter_def Axes_surface_def)

theorem type_rejection_witness:
  "\<not> type_is_ndarray str1 \<and> \<not> isinstance_Material str1 \<and> 0 < length (axes (fig world1)) \<and>
   Figure_addData gen0 str1 world1 =
     Some (Inl (TypeError ''Expecting Numpy ndarray object''), world1) \<and>
   Figure_addMaterial str1 world1 = (Inl (TypeError ''Expecting Material object''), world1) \<and>
   Axes_scatter gen0 0 str1 [] world1 =
     Some (Inl (TypeError ''Expecting a Numpy NDArray object''), world1) \<and>
   Axes_surface gen0 0 str1 [] world1 =
     Some (Inl (TypeError ''Expecting a Numpy NDArray object''), world1)"
proof -
  have h1: "\<not> type_is_ndarray str1"
    by (simp add: type_is_ndarray_def str1_def)
  have h2: "\<not> isinstance_Material str1"
    by (simp add: isinstance_Material_def str1_def)
  have h3: "0 < length (axes (fig world1))"
    by code_simp
  from h1 h2 h3 type_rejection [of str1 gen0 world1 0 "[]"] show ?thesis
    by simp
qed

text \<open>An instance of a subclass of \<open>numpy.ndarray\<close> is rejected as well.\<close>

lemma addData_rejects_subclass_instance:
  "Figure_addData gen \<lparr>ident = i, val = NdarraySub xs\<rparr> w =
     Some (Inl (TypeError ''Expecting Numpy ndarray object''), w)"
  by (simp add: Figure_addData_def type_is_ndarray_def)

section \<open>The read-only data property\<close>

text \<open>
  C8. An assignment to the property \<open>data\<close> of a Figure or of an Axes raises the
  exception \<open>data source dictionary cannot be set\<close> (the spec's ImmutableViolation),
  and the data registry that the property reads is the same after the attempt.
\<close>

theorem data_property_read_only:
  "Figure_data_set v w = (Inl (Exception ''data source dictionary cannot be set''), w) \<and>
   dict_items (Figure_data_get (snd (Figure_data_set v w))) (snd (Figure_data_set v w)) =
     dict_items (Figure_data_get w) w \<and>
   Axes_data_set v w = (Inl (Exception ''data source dictionary cannot be set''), w) \<and>
   dict_items (Axes_data_get (snd (Axes_data_set v w))) (snd (Axes_data_set v w)) =
     dict_items (Axes_data_get w) w"
  by (simp add: Figure_data_set_def Axes_data_set_def)

lemma addData_registers:
  assumes "Figure_addData gen b w = Some (Inr i, w1)"
  shows "type_is_ndarray b \<and> (\<exists>e. find_is (dataDict (fig w1)) b = Some e \<and> fst e = i)"
proof -
  from assms have nd: "type_is_ndarray b"
    by (auto simp: Figure_addData_def split: if_splits)
  show ?thesis
  proof (cases "find_is (dataDict (fig w)) b")
    case (Some e)
    with nd assms show ?thesis by (simp add: Figure_addData_def)
  next
    case None
    from addData_new [OF nd None assms] obtain n where
      w1: "w1 = w\<lparr>fig := (fig w)\<lparr>dataDict := dataDict (fig w) @ [(i, b)]\<rparr>, uuid_ctr := n\<rparr>"
      by auto
    from None have "find_is (dataDict (fig w) @ [(i, b)]) b = Some (i, b)"
      by (simp add: find_is_append py_is_def)
    with nd w1 show ?thesis by simp
  qed
qed

lemma addData_keys_distinct:
  assumes "distinct (map fst (dataDict (fig w)))" and "Figure_addData gen b w = Some (r, w1)"
  shows "distinct (map fst (dataDict (fig w1)))"
  using assms
  by (auto simp: Figure_addData_def distinct_setitem split: if_splits option.splits)

lemma addData_other_ID:
  assumes keys: "distinct (map fst (dataDict (fig w)))"
    and e: "find_is (dataDict (fig w)) b = Some e"
    and other: "\<not> py_is b2 b"
    and call: "Figure_addData gen b2 w = Some (Inr i2, w2)"
  shows "i2 \<noteq> fst e"
proof (cases "find_is (dataDict (fig w)) b2")
  case (Some e2)
  from call have "type_is_ndarray b2"
    by (auto simp: Figure_addData_def split: if_splits)
  with Some call have i2: "i2 = fst e2" by (simp add: Figure_addData_def)
  from find_is_Some [OF e] have in1: "(fst e, snd e) \<in> set (dataDict (fig w))"
    and is1: "py_is (snd e) b" by auto
  from find_is_Some [OF Some] have in2: "(fst e2, snd e2) \<in> set (dataDict (fig w))"
    and is2: "py_is (snd e2) b2" by auto
  show ?thesis
  proof
    assume "i2 = fst e"
    with i2 in2 have "(fst e, snd e2) \<in> set (dataDict (fig w))" by simp
    with keys in1 have "snd e = snd e2" by (rule eq_key_imp_eq_value)
    with is1 is2 other show False by (simp add: py_is_def)
  qed
next
  case None
  from call have nd: "type_is_ndarray b2"
    by (auto simp: Figure_addData_def split: if_splits)
  from addData_new [OF nd None call] have "\<not> has_key (dataDict (fig w)) i2" by auto
  moreover from find_is_Some [OF e] have "has_key (dataDict (fig w)) (fst e)"
    by (auto simp: has_key_def)
  ultimately show ?thesis by auto
qed

section \<open>Deduplication of data buffers by identity\<close>

text \<open>
  C1. Let \<open>addData(b)\<close> have returned the ID \<open>i\<close>, so that \<open>b\<close> is registered. A second
  call \<open>addData(b)\<close> returns \<open>i\<close> again and leaves the registry as it is. A call with a
  buffer that is not the same object returns an ID other than \<open>i\<close>, whether or not its
  contents equal those of \<open>b\<close>; and if that buffer is not yet registered, the call
  returns (as soon as the generator yields an identifier that is no key) and the
  registry has one new entry, the new ID with that buffer.
\<close>

theorem addData_dedup_by_identity:
  assumes keys: "distinct (map fst (dataDict (fig w)))"
    and first: "Figure_addData gen b w = Some (Inr i, w1)"
  shows "Figure_addData gen b w1 = Some (Inr i, w1) \<and>
         (\<forall>b2 i2 w2. \<not> py_is b2 b \<and> Figure_addData gen b2 w1 = Some (Inr i2, w2)
            \<longrightarrow> i2 \<noteq> i) \<and>
         (\<forall>b2 k. type_is_ndarray b2 \<and> \<not> py_is b2 b \<and> py_eq b2 b \<and>
                 find_is (dataDict (fig w1)) b2 = None \<and>
                 \<not> has_key (dataDict (fig w1)) (gen (uuid_ctr w1 + k))
            \<longrightarrow> (\<exists>i2 w2. Figure_addData gen b2 w1 = Some (Inr i2, w2) \<and> i2 \<noteq> i \<and>
                   dataDict (fig w2) = dataDict (fig w1) @ [(i2, b2)]))"
proof -
  from addData_registers [OF first] obtain e where
    nd: "type_is_ndarray b" and e: "find_is (dataDict (fig w1)) b = Some e" and i: "fst e = i"
    by auto
  from keys first have keys1: "distinct (map fst (dataDict (fig w1)))"
    by (rule addData_keys_distinct)
  from addData_found [OF nd e] i have again: "Figure_addData gen b w1 = Some (Inr i, w1)"
    by simp
  have differ: "i2 \<noteq> i" if "\<not> py_is b2 b" and "Figure_addData gen b2 w1 = Some (Inr i2, w2)"
    for b2 i2 w2
    using addData_other_ID [OF keys1 e that] i by simp
  have fresh: "\<exists>i2 w2. Figure_addData gen b2 w1 = Some (Inr i2, w2) \<and> i2 \<noteq> i \<and>
                 dataDict (fig w2) = dataDict (fig w1) @ [(i2, b2)]"
    if nd2: "type_is_ndarray b2" and other: "\<not> py_is b2 b"
      and new: "find_is (dataDict (fig w1)) b2 = None"
      and k: "\<not> has_key (dataDict (fig w1)) (gen (uuid_ctr w1 + k))" for b2 k
  proof -
    from k addData_returns [of w1 gen k b2] obtain r w2 where
      call: "Figure_addData gen b2 w1 = Some (r, w2)" by blast
    from addData_new [OF nd2 new call] obtain i2 where
      r: "r = Inr i2" and d2: "dataDict (fig w2) = dataDict (fig w1) @ [(i2, b2)]"
      by auto
    from differ [OF other] call r have "i2 \<noteq> i" by simp
    with call r d2 show ?thesis by simp
  qed
  from again differ fresh show ?thesis by blast
qed

theorem addData_dedup_by_identity_witness:
  "distinct (map fst (dataDict (fig world1))) \<and>
   Figure_addData gen0 arr1 world1 = Some (Inr ''uu'', world2) \<and>
   Figure_addData gen0 arr1 world2 = Some (Inr ''uu'', world2) \<and>
   type_is_ndarray arr2 \<and> \<not> py_is arr2 arr1 \<and> py_eq arr2 arr1 \<and>
   find_is (dataDict (fig world2)) arr2 = None \<and>
   \<not> has_key (dataDict (fig world2)) (gen0 (uuid_ctr world2 + 0)) \<and>
   (\<exists>i2 w2. Figure_addData gen0 arr2 world2 = Some (Inr i2, w2) \<and> i2 \<noteq> ''uu'' \<and>
      dataDict (fig w2) = dataDict (fig world2) @ [(i2, arr2)])"
proof -
  have h1: "distinct (map fst (dataDict (fig world1)))"
    by code_simp
  have h2: "Figure_addData gen0 arr1 world1 = Some (Inr ''uu'', world2)"
    by code_simp
  have h3: "type_is_ndarray arr2 \<and> \<not> py_is arr2 arr1 \<and> py_eq arr2 arr1 \<and>
            find_is (dataDict (fig world2)) arr2 = None \<and>
            \<not> has_key (dataDict (fig world2)) (gen0 (uuid_ctr world2 + 0))"
    by code_simp
  from addData_dedup_by_identity [OF h1 h2] h3
  have "Figure_addData gen0 arr1 world2 = Some (Inr ''uu'', world2) \<and>
        (\<exists>i2 w2. Figure_addData gen0 arr2 world2 = Some (Inr i2, w2) \<and> i2 \<noteq> ''uu'' \<and>
           dataDict (fig w2) = dataDict (fig world2) @ [(i2, arr2)])"
    by blast
  with h1 h2 h3 show ?thesis by simp
qed

lemma find_is_setitem: "find_is d x = None \<Longrightarrow> find_is (setitem d k x) x = Some (k, x)"
  by (induction d) (auto simp: py_is_def split: if_splits)

lemma Material_ID_Inr: "isinstance_Material m \<Longrightarrow> \<exists>mID. Material_ID m = Inr mID"
  by (cases "val m") (auto simp: isinstance_Material_def Material_ID_def)

lemma addMaterial_TypeError:
  "\<not> isinstance_Material m \<Longrightarrow>
   Figure_addMaterial m w = (Inl (TypeError ''Expecting Material object''), w)"
  by (simp add: Figure_addMaterial_def)

lemma addMaterial_found:
  "isinstance_Material m \<Longrightarrow> find_is (materialDict (fig w)) m = Some mat \<Longrightarrow>
   Figure_addMaterial m w = (Inr (snd mat), w)"
  by (simp add: Figure_addMaterial_def)

lemma addMaterial_new:
  assumes "isinstance_Material m" and "find_is (materialDict (fig w)) m = None"
  shows "\<exists>mID. Material_ID m = Inr mID \<and>
           Figure_addMaterial m w =
             (Inr m, w\<lparr>fig := (fig w)\<lparr>materialDict := setitem (materialDict (fig w)) mID m\<rparr>,
                       hook_calls := hook_calls w @ [(m, ID (fig w))]\<rparr>)"
proof -
  from Material_ID_Inr [OF assms(1)] obtain mID where "Material_ID m = Inr mID" ..
  with assms show ?thesis
    by (simp add: Figure_addMaterial_def Material_addToFigure_def Let_def)
qed

section \<open>Deduplication of materials and the binding hook\<close>

text \<open>
  C2. For a material \<open>m\<close>, \<open>addMaterial(m)\<close> returns the object \<open>m\<close>, and a second
  call returns the same object and changes nothing. If \<open>m\<close> was not yet registered, the
  first call returns \<open>m\<close> itself and calls its hook \<open>addToFigure\<close> once (the trace of
  hook calls grows by this one call); the second call does not call it. If \<open>m\<close> was
  registered before, neither call runs the hook.
\<close>

theorem addMaterial_dedup_single_binding:
  assumes "isinstance_Material m"
  shows "\<exists>r w1. Figure_addMaterial m w = (Inr r, w1) \<and> py_is r m \<and>
           Figure_addMaterial m w1 = (Inr r, w1) \<and>
           (find_is (materialDict (fig w)) m = None \<longrightarrow>
              r = m \<and> hook_calls w1 = hook_calls w @ [(m, ID (fig w))]) \<and>
           (find_is (materialDict (fig w)) m \<noteq> None \<longrightarrow> w1 = w)"
proof (cases "find_is (materialDict (fig w)) m")
  case None
  from addMaterial_new [OF assms None] obtain mID where
    first: "Figure_addMaterial m w =
      (Inr m, w\<lparr>fig := (fig w)\<lparr>materialDict := setitem (materialDict (fig w)) mID m\<rparr>,
                hook_calls := hook_calls w @ [(m, ID (fig w))]\<rparr>)"
    by blast
  let ?w1 = "w\<lparr>fig := (fig w)\<lparr>materialDict := setitem (materialDict (fig w)) mID m\<rparr>,
               hook_calls := hook_calls w @ [(m, ID (fig w))]\<rparr>"
  from None have "find_is (materialDict (fig ?w1)) m = Some (mID, m)"
    by (simp add: find_is_setitem)
  from addMaterial_found [OF assms this] have "Figure_addMaterial m ?w1 = (Inr m, ?w1)"
    by simp
  with first None show ?thesis by (simp add: py_is_def)
next
  case (Some mat)
  from addMaterial_found [OF assms Some] have "Figure_addMaterial m w = (Inr (snd mat), w)" .
  moreover from find_is_Some [OF Some] have "py_is (snd mat) m" by simp
  ultimately show ?thesis using Some by simp
qed

theorem addMaterial_dedup_single_binding_witness:
  "isinstance_Material mat1 \<and> find_is (materialDict (fig world1)) mat1 = None \<and>
   find_is (materialDict (fig world3)) mat1 \<noteq> None \<and>
   Figure_addMaterial mat1 world1 = (Inr mat1, world3) \<and>
   Figure_addMaterial mat1 world3 = (Inr mat1, world3) \<and>
   hook_calls world3 = hook_calls world1 @ [(mat1, ID (fig world1))]"
proof -
  have h1: "isinstance_Material mat1" by code_simp
  have h2: "find_is (materialDict (fig world1)) mat1 = None" by code_simp
  have h3: "find_is (materialDict (fig world3)) mat1 \<noteq> None" by code_simp
  have first: "Figure_addMaterial mat1 world1 = (Inr mat1, world3)" by code_simp
  from addMaterial_dedup_single_binding [OF h1, of world1] h2 first
  have "Figure_addMaterial mat1 world3 = (Inr mat1, world3) \<and>
        hook_calls world3 = hook_calls world1 @ [(mat1, ID (fig world1))]"
    by auto
  moreover from addMaterial_dedup_single_binding [OF h1, of world3] h3
  have "Figure_addMaterial mat1 world3 = (Inr mat1, world3)"
    using calculation by auto
  ultimately show ?thesis using h1 h2 h3 first by simp
qed

lemma addData_ndarray_Inr:
  "type_is_ndarray b \<Longrightarrow> Figure_addData gen b w = Some (r, w1) \<Longrightarrow> \<exists>i. r = Inr i"
  by (auto simp: Figure_addData_def split: option.splits)

lemma addData_keeps_find:
  assumes e: "find_is (dataDict (fig w)) b = Some e"
    and call: "Figure_addData gen b' w = Some (r, w1)"
  shows "find_is (dataDict (fig w1)) b = Some e"
proof (cases "type_is_ndarray b' \<and> find_is (dataDict (fig w)) b' = None")
  case True
  with addData_new [of b' w gen r w1] call obtain i where
    "dataDict (fig w1) = dataDict (fig w) @ [(i, b')]" by auto
  with e show ?thesis by (simp add: find_is_append)
next
  case False
  with call have "w1 = w"
    by (auto simp: Figure_addData_def split: if_splits option.splits)
  with e show ?thesis by simp
qed

lemma fresh_key_first:
  "\<forall>j<k. has_key d (gen (n + j)) \<Longrightarrow> \<not> has_key d (gen (n + k)) \<Longrightarrow>
   fresh_key gen d (gen n) (Suc n) = Some (gen (n + k), Suc (n + k))"
proof (induction k arbitrary: n)
  case 0
  then show ?case by (simp add: fresh_key.simps)
next
  case (Suc k)
  from Suc.prems(1) have here: "has_key d (gen n)" by force
  have "\<forall>j<k. has_key d (gen (Suc n + j))"
  proof (intro allI impI)
    fix j assume "j < k"
    then have "Suc j < Suc k" by simp
    with Suc.prems(1) have "has_key d (gen (n + Suc j))" by blast
    then show "has_key d (gen (Suc n + j))" by simp
  qed
  moreover from Suc.prems(2) have "\<not> has_key d (gen (Suc n + k))" by simp
  ultimately have "fresh_key gen d (gen (Suc n)) (Suc (Suc n)) = Some (gen (Suc n + k), Suc (Suc n + k))"
    by (rule Suc.IH)
  with here show ?case by (simp add: fresh_key.simps [of gen d "gen n"])
qed

lemma inj_gen_fresh:
  fixes gen :: "nat \<Rightarrow> uuid"
  assumes "inj gen"
  shows "\<exists>k. \<not> has_key d (gen (n + k))"
proof (rule ccontr)
  assume "\<not> ?thesis"
  then have sub: "range (\<lambda>k. gen (n + k)) \<subseteq> set (map fst d)"
    by (auto simp: has_key_def)
  have "inj (\<lambda>k. gen (n + k))"
  proof (rule injI)
    fix x y
    assume "gen (n + x) = gen (n + y)"
    with assms have "n + x = n + y" by (rule injD)
    then show "x = y" by simp
  qed
  then have "infinite (range (\<lambda>k. gen (n + k)))"
    using finite_imageD infinite_UNIV_nat by blast
  with sub show False
    using finite_subset by blast
qed

lemma addData_each_other:
  assumes "distinct (map fst (dataDict (fig w)))"
    and "find_is (dataDict (fig w)) b = Some e"
    and "\<forall>b' \<in> set bs. \<not> py_is b' b"
    and "addData_each gen bs w = Some (rs, w')"
  shows "Inr (fst e) \<notin> set rs"
  using assms
proof (induction bs arbitrary: w rs)
  case Nil
  then show ?case by simp
next
  case (Cons b' bs)
  from Cons.prems(4) obtain r w1 rs1 where
    call: "Figure_addData gen b' w = Some (r, w1)"
    and rest: "addData_each gen bs w1 = Some (rs1, w')"
    and rs: "rs = r # rs1"
    by (auto split: option.splits)
  from Cons.prems(1) call have keys1: "distinct (map fst (dataDict (fig w1)))"
    by (rule addData_keys_distinct)
  from Cons.prems(2) call have e1: "find_is (dataDict (fig w1)) b = Some e"
    by (rule addData_keeps_find)
  from Cons.prems(3) have others: "\<forall>b' \<in> set bs. \<not> py_is b' b" and other: "\<not> py_is b' b"
    by simp_all
  from Cons.IH [OF keys1 e1 others rest] have tail: "Inr (fst e) \<notin> set rs1" .
  have "r \<noteq> Inr (fst e)"
  proof
    assume "r = Inr (fst e)"
    with call have "Figure_addData gen b' w = Some (Inr (fst e), w1)" by simp
    from addData_other_ID [OF Cons.prems(1) Cons.prems(2) other this] show False by simp
  qed
  with tail rs show ?case by auto
qed

lemma addData_each_distinct:
  assumes "distinct (map fst (dataDict (fig w)))"
    and "list_all type_is_ndarray bs"
    and "distinct (map ident bs)"
    and "addData_each gen bs w = Some (rs, w')"
  shows "\<exists>ids. rs = map Inr ids \<and> distinct ids"
  using assms
proof (induction bs arbitrary: w rs)
  case Nil
  then show ?case by simp
next
  case (Cons b bs)
  from Cons.prems(4) obtain r w1 rs1 where
    call: "Figure_addData gen b w = Some (r, w1)"
    and rest: "addData_each gen bs w1 = Some (rs1, w')"
    and rs: "rs = r # rs1"
    by (auto split: option.splits)
  from Cons.prems(2) have nd: "type_is_ndarray b" and nds: "list_all type_is_ndarray bs"
    by simp_all
  from addData_ndarray_Inr [OF nd call] obtain i where r: "r = Inr i" ..
  from Cons.prems(1) call have keys1: "distinct (map fst (dataDict (fig w1)))"
    by (rule addData_keys_distinct)
  from Cons.prems(3) have dist: "distinct (map ident bs)"
    and notin: "ident b \<notin> ident ` set bs"
    by simp_all
  from notin have others: "\<forall>b' \<in> set bs. \<not> py_is b' b"
    by (metis image_eqI py_is_def)
  from Cons.IH [OF keys1 nds dist rest] obtain ids where
    ids: "rs1 = map Inr ids" and dids: "distinct ids" by blast
  from call r addData_registers [of gen b w i w1] obtain e where
    e: "find_is (dataDict (fig w1)) b = Some e" and i: "fst e = i" by auto
  from addData_each_other [OF keys1 e others rest] i ids have "i \<notin> set ids"
    by auto
  with rs r ids dids have "rs = map Inr (i # ids) \<and> distinct (i # ids)" by simp
  then show ?case by blast
qed

lemma addData_each_returns:
  assumes "inj gen"
  shows "addData_each gen bs w \<noteq> None"
proof (induction bs arbitrary: w)
  case Nil
  show ?case by simp
next
  case (Cons b bs)
  from inj_gen_fresh [OF assms] obtain k where
    "\<not> has_key (dataDict (fig w)) (gen (uuid_ctr w + k))" by blast
  from this addData_returns [of w gen k b] obtain r w1 where
    "Figure_addData gen b w = Some (r, w1)" by blast
  with Cons.IH [of w1] show ?case by auto
qed

section \<open>Uniqueness of data IDs\<close>

text \<open>
  C6. \<open>addData\<close> called in turn on buffer objects that are pairwise distinct returns
  IDs that are pairwise distinct, and none of the calls raises. The calls return for
  every generator that does not repeat itself. When the first \<open>k\<close> identifiers that the
  generator yields are keys of the registry already, \<open>addData\<close> of a new buffer draws
  again and returns the next one, as an ordinary result.
\<close>

theorem addData_ID_uniqueness:
  assumes "distinct (map fst (dataDict (fig w)))"
    and "list_all type_is_ndarray bs"
    and "distinct (map ident bs)"
  shows "(\<forall>rs w'. addData_each gen bs w = Some (rs, w') \<longrightarrow>
            (\<exists>ids. rs = map Inr ids \<and> distinct ids)) \<and>
         (inj gen \<longrightarrow> addData_each gen bs w \<noteq> None) \<and>
         (\<forall>b k. type_is_ndarray b \<and> find_is (dataDict (fig w)) b = None \<and>
                (\<forall>j<k. has_key (dataDict (fig w)) (gen (uuid_ctr w + j))) \<and>
                \<not> has_key (dataDict (fig w)) (gen (uuid_ctr w + k)) \<longrightarrow>
            (\<exists>w'. Figure_addData gen b w = Some (Inr (gen (uuid_ctr w + k)), w')))"
proof (intro conjI allI impI)
  fix rs w'
  assume "addData_each gen bs w = Some (rs, w')"
  with assms show "\<exists>ids. rs = map Inr ids \<and> distinct ids"
    by (rule addData_each_distinct)
next
  assume "inj gen"
  then show "addData_each gen bs w \<noteq> None"
    by (rule addData_each_returns)
next
  fix b k
  assume h: "type_is_ndarray b \<and> find_is (dataDict (fig w)) b = None \<and>
             (\<forall>j<k. has_key (dataDict (fig w)) (gen (uuid_ctr w + j))) \<and>
             \<not> has_key (dataDict (fig w)) (gen (uuid_ctr w + k))"
  then have "fresh_key gen (dataDict (fig w)) (gen (uuid_ctr w)) (Suc (uuid_ctr w)) =
             Some (gen (uuid_ctr w + k), Suc (uuid_ctr w + k))"
    by (intro fresh_key_first) auto
  with h show "\<exists>w'. Figure_addData gen b w = Some (Inr (gen (uuid_ctr w + k)), w')"
    by (simp add: Figure_addData_def)
qed

lemma inj_gen0: "inj gen0"
  by (simp add: inj_def gen0_def)

theorem addData_ID_uniqueness_witness:
  "distinct (map fst (dataDict (fig world4))) \<and> list_all type_is_ndarray [arr1, arr2] \<and>
   distinct (map ident [arr1, arr2]) \<and> inj gen0 \<and>
   find_is (dataDict (fig world4)) arr2 = None \<and>
   has_key (dataDict (fig world4)) (gen0 (uuid_ctr world4 + 0)) \<and>
   \<not> has_key (dataDict (fig world4)) (gen0 (uuid_ctr world4 + 1)) \<and>
   map_option fst (addData_each gen0 [arr1, arr2] world4) = Some [Inr ''uu'', Inr ''uuu''] \<and>
   (\<exists>ids. map_option fst (addData_each gen0 [arr1, arr2] world4) = Some (map Inr ids) \<and>
      distinct ids) \<and>
   addData_each gen0 [arr1, arr2] world4 \<noteq> None \<and>
   (\<exists>w'. Figure_addData gen0 arr2 world4 = Some (Inr (gen0 (uuid_ctr world4 + 1)), w'))"
proof -
  have h1: "distinct (map fst (dataDict (fig world4)))" by code_simp
  have h2: "list_all type_is_ndarray [arr1, arr2]" by code_simp
  have h3: "distinct (map ident [arr1, arr2])" by code_simp
  have h4: "type_is_ndarray arr2 \<and> find_is (dataDict (fig world4)) arr2 = None \<and>
            has_key (dataDict (fig world4)) (gen0 (uuid_ctr world4 + 0)) \<and>
            \<not> has_key (dataDict (fig world4)) (gen0 (uuid_ctr world4 + 1))"
    by code_simp
  then have h5: "\<forall>j<1. has_key (dataDict (fig world4)) (gen0 (uuid_ctr world4 + j))"
    by simp
  have run: "map_option fst (addData_each gen0 [arr1, arr2] world4) = Some [Inr ''uu'', Inr ''uuu'']"
    by code_simp
  then have run': "\<exists>w'. addData_each gen0 [arr1, arr2] world4 = Some ([Inr ''uu'', Inr ''uuu''], w')"
    by auto
  note inst = addData_ID_uniqueness [OF h1 h2 h3, of gen0]
  from run' obtain w' where
    res: "addData_each gen0 [arr1, arr2] world4 = Some ([Inr ''uu'', Inr ''uuu''], w')" ..
  have ex: "\<exists>ids. [Inr ''uu'', Inr ''uuu''] = (map Inr ids :: (pyerror + uuid) list) \<and>
              distinct ids"
    by (rule inst [THEN conjunct1, THEN spec, THEN spec, THEN mp, OF res])
  have c1: "\<exists>ids. map_option fst (addData_each gen0 [arr1, arr2] world4) = Some (map Inr ids) \<and>
              distinct ids"
    unfolding run option.inject by (rule ex)
  from inst [THEN conjunct2, THEN conjunct1] inj_gen0
  have c2: "addData_each gen0 [arr1, arr2] world4 \<noteq> None"
    by (rule mp)
  from inst [THEN conjunct2, THEN conjunct2, THEN spec, THEN spec, of arr2 1] h4 h5
  have c3:
    "\<exists>w'. Figure_addData gen0 arr2 world4 = Some (Inr (gen0 (uuid_ctr world4 + 1)), w')"
    by simp
  from h1 h2 h3 h4 inj_gen0 run c1 c2 c3 show ?thesis by simp
qed

section \<open>Lemmas about the calls\<close>

lemma new_Material_frame:
  "new_Material c gen w = (m, w') \<Longrightarrow>
   fig w' = fig w \<and> hook_calls w' = hook_calls w \<and> isinstance_Material m"
  by (auto simp: new_Material_def isinstance_Material_def)

lemma append_renderObject_frame:
  "ID (fig (append_renderObject i obj w)) = ID (fig w) \<and>
   dataDict (fig (append_renderObject i obj w)) = dataDict (fig w) \<and>
   materialDict (fig (append_renderObject i obj w)) = materialDict (fig w) \<and>
   hook_calls (append_renderObject i obj w) = hook_calls w \<and>
   length (axes (fig (append_renderObject i obj w))) = length (axes (fig w))"
  by (simp add: append_renderObject_def)

lemma RenderObject_init_result:
  assumes "RenderObject_init mk c gen v kwargs w = Some (r, w')"
  shows "(\<exists>k. keyword_clash RenderObject_params kwargs = Some k \<and>
              r = Inl (multiple_values ''__init__'' k) \<and> w' = w) \<or>
         (\<exists>e. Figure_addData gen v w = Some (Inl e, w') \<and> r = Inl e) \<or>
         (\<exists>dataID w1 dflt w2 r2.
            keyword_clash RenderObject_params kwargs = None \<and>
            Figure_addData gen v w = Some (Inr dataID, w1) \<and>
            new_Material c gen w1 = (dflt, w2) \<and>
            Figure_addMaterial (pop_default kwargs ''material'' dflt) w2 = (r2, w') \<and>
            r = (case r2 of Inl e \<Rightarrow> Inl e
                 | Inr _ \<Rightarrow> Inr (mk dataID (pop_default kwargs ''material'' dflt))))"
  using assms
  by (auto simp: RenderObject_init_def Axes_addData_def Axes_addMaterial_def Let_def
      split: option.splits sum.splits prod.splits)

lemma registries_grow_refl: "registries_grow w w"
  by (simp add: registries_grow_def)

lemma registries_grow_trans:
  "registries_grow w w1 \<Longrightarrow> registries_grow w1 w2 \<Longrightarrow> registries_grow w w2"
  unfolding registries_grow_def by (meson order_trans subset_trans)

lemma registries_grow_fig: "fig w' = fig w \<Longrightarrow> registries_grow w w'"
  by (simp add: registries_grow_def)

lemma addData_grow:
  assumes "Figure_addData gen b w = Some (r, w')"
  shows "registries_grow w w'"
proof (cases "type_is_ndarray b \<and> find_is (dataDict (fig w)) b = None")
  case True
  with addData_new [of b w gen r w'] assms obtain i where
    "dataDict (fig w') = dataDict (fig w) @ [(i, b)]"
    and "materialDict (fig w') = materialDict (fig w)" by auto
  then show ?thesis by (auto simp: registries_grow_def)
next
  case False
  with assms have "w' = w"
    by (auto simp: Figure_addData_def split: if_splits option.splits)
  then show ?thesis by (simp add: registries_grow_refl)
qed

lemma addMaterial_grow:
  assumes "Figure_addMaterial m w = (r, w')"
  shows "registries_grow w w'"
proof (cases "isinstance_Material m \<and> find_is (materialDict (fig w)) m = None")
  case True
  with addMaterial_new [of m w] assms obtain mID where
    "materialDict (fig w') = setitem (materialDict (fig w)) mID m"
    and "dataDict (fig w') = dataDict (fig w)" by auto
  then show ?thesis
    using length_setitem [of "materialDict (fig w)" mID m]
      keys_setitem [of "materialDict (fig w)" mID m]
    by (auto simp: registries_grow_def)
next
  case False
  with assms have "w' = w"
    by (auto simp: Figure_addMaterial_def split: if_splits option.splits)
  then show ?thesis by (simp add: registries_grow_refl)
qed

lemma RenderObject_init_grow:
  assumes "RenderObject_init mk c gen v kwargs w = Some (r, w')"
  shows "registries_grow w w'"
  using RenderObject_init_result [OF assms]
proof (elim disjE exE conjE)
  fix k
  assume "w' = w"
  then show ?thesis by (simp add: registries_grow_refl)
next
  fix e
  assume "Figure_addData gen v w = Some (Inl e, w')"
  then show ?thesis by (rule addData_grow)
next
  fix dataID w1 dflt w2 r2
  assume a: "Figure_addData gen v w = Some (Inr dataID, w1)"
    and n: "new_Material c gen w1 = (dflt, w2)"
    and m: "Figure_addMaterial (pop_default kwargs ''material'' dflt) w2 = (r2, w')"
  from a have "registries_grow w w1" by (rule addData_grow)
  moreover from new_Material_frame [OF n] have "registries_grow w1 w2"
    by (simp add: registries_grow_fig)
  moreover from m have "registries_grow w2 w'" by (rule addMaterial_grow)
  ultimately show ?thesis by (blast intro: registries_grow_trans)
qed

lemma append_renderObject_grow: "registries_grow w (append_renderObject i obj w)"
  by (simp add: registries_grow_def append_renderObject_frame)

lemma scatter_grow:
  assumes "Axes_scatter gen i v kwargs w = Some (r, w')"
  shows "registries_grow w w'"
proof -
  from assms consider "w' = w"
    | e where "Scatter_init gen v kwargs w = Some (Inl e, w')"
    | obj w1 where "Scatter_init gen v kwargs w = Some (Inr obj, w1)"
        and "w' = append_renderObject i obj w1"
    by (auto simp: Axes_scatter_def split: if_splits option.splits sum.splits)
  then show ?thesis
  proof cases
    case 1
    then show ?thesis by (simp add: registries_grow_refl)
  next
    case 2
    then show ?thesis unfolding Scatter_init_def by (rule RenderObject_init_grow)
  next
    case 3
    from 3(1) have "registries_grow w w1"
      unfolding Scatter_init_def by (rule RenderObject_init_grow)
    with 3(2) show ?thesis
      by (blast intro: registries_grow_trans append_renderObject_grow)
  qed
qed

lemma surface_grow:
  assumes "Axes_surface gen i v kwargs w = Some (r, w')"
  shows "registries_grow w w'"
proof -
  from assms consider "w' = w"
    | e where "Surface_init gen v kwargs w = Some (Inl e, w')"
    | obj w1 where "Surface_init gen v kwargs w = Some (Inr obj, w1)"
        and "w' = append_renderObject i obj w1"
    by (auto simp: Axes_surface_def split: if_splits option.splits sum.splits)
  then show ?thesis
  proof cases
    case 1
    then show ?thesis by (simp add: registries_grow_refl)
  next
    case 2
    then show ?thesis unfolding Surface_init_def by (rule RenderObject_init_grow)
  next
    case 3
    from 3(1) have "registries_grow w w1"
      unfolding Surface_init_def by (rule RenderObject_init_grow)
    with 3(2) show ?thesis
      by (blast intro: registries_grow_trans append_renderObject_grow)
  qed
qed

lemma exec_grow:
  assumes "exec gen c w = Some w'" and "method_call c"
  shows "registries_grow w w'"
proof (cases c)
  case (AddData b)
  with assms show ?thesis by (auto dest: addData_grow)
next
  case (AddMaterial m)
  with assms show ?thesis by (cases "Figure_addMaterial m w") (auto dest: addMaterial_grow)
next
  case (AddAxes kwargs)
  with assms show ?thesis
    by (auto simp: Figure_addAxes_def registries_grow_def split: sum.splits)
next
  case (CallScatter i v kwargs)
  with assms show ?thesis by (auto dest: scatter_grow)
next
  case (CallSurface i v kwargs)
  with assms show ?thesis by (auto dest: surface_grow)
next
  case (AddRenderObject i obj)
  with assms show ?thesis
    by (auto simp: Axes_addRenderObject_def append_renderObject_grow split: if_splits)
next
  case (SetID v)
  with assms show ?thesis by (auto simp: Figure_ID_set_def registries_grow_def)
next
  case (SetFigureData v)
  with assms show ?thesis by (auto simp: Figure_data_set_def registries_grow_refl)
next
  case (SetAxesData v)
  with assms show ?thesis by (auto simp: Axes_data_set_def registries_grow_refl)
next
  case DataClear
  with assms show ?thesis by simp
next
  case (DataDelItem k)
  with assms show ?thesis by simp
next
  case (DataSetItem k v)
  with assms show ?thesis by simp
qed

lemma run_grow:
  "run gen cs w = Some w' \<Longrightarrow> list_all method_call cs \<Longrightarrow> registries_grow w w'"
proof (induction cs arbitrary: w)
  case Nil
  then show ?case by (simp add: registries_grow_refl)
next
  case (Cons c cs)
  from Cons.prems(1) obtain w1 where
    step: "exec gen c w = Some w1" and rest: "run gen cs w1 = Some w'"
    by (auto split: option.splits)
  from Cons.prems(2) have c: "method_call c" and cs: "list_all method_call cs" by simp_all
  from step c have "registries_grow w w1" by (rule exec_grow)
  moreover from rest cs have "registries_grow w1 w'" by (rule Cons.IH)
  ultimately show ?case by (rule registries_grow_trans)
qed

lemma addMaterial_keeps_entries:
  assumes call: "Figure_addMaterial m w = (r, w1)"
    and free: "find_is (materialDict (fig w)) m \<noteq> None \<or>
               (\<forall>mID. Material_ID m = Inr mID \<longrightarrow> \<not> has_key (materialDict (fig w)) mID)"
  shows "set (materialDict (fig w)) \<subseteq> set (materialDict (fig w1))"
proof (cases "isinstance_Material m \<and> find_is (materialDict (fig w)) m = None")
  case True
  with addMaterial_new [of m w] call obtain mID where
    mID: "Material_ID m = Inr mID"
    and d: "materialDict (fig w1) = setitem (materialDict (fig w)) mID m" by auto
  from True free mID have "\<not> has_key (materialDict (fig w)) mID" by simp
  with d show ?thesis by (auto simp: setitem_fresh)
next
  case False
  with call have "w1 = w"
    by (auto simp: Figure_addMaterial_def split: if_splits option.splits)
  then show ?thesis by simp
qed

section \<open>Registries only grow\<close>

text \<open>
  C9, as the code has it. After any sequence of method calls and property assignments
  of the module (\<open>addData\<close>, \<open>addMaterial\<close>, \<open>addAxes\<close>, \<open>scatter\<close>, \<open>surface\<close>,
  \<open>addRenderObject\<close>, assignments to \<open>ID\<close> and to \<open>data\<close>), whether they return or raise,
  neither registry has fewer entries than before, every entry of the data registry is an
  entry still, and every key of the material registry is a key still. In the state
  reached, \<open>addMaterial(m)\<close> keeps every entry of the material registry when \<open>m\<close> is
  registered already or its \<open>ID\<close> is no key yet. The calls on the dictionary that the
  property \<open>data\<close> returns are no methods of the module and are not among these calls.
\<close>

theorem registry_monotonicity_of_methods:
  assumes "run gen cs w = Some w'" and "list_all method_call cs"
  shows "registries_grow w w' \<and>
         (\<forall>m r w1. Figure_addMaterial m w' = (r, w1) \<and>
              (find_is (materialDict (fig w')) m \<noteq> None \<or>
               (\<forall>mID. Material_ID m = Inr mID \<longrightarrow> \<not> has_key (materialDict (fig w')) mID))
            \<longrightarrow> set (materialDict (fig w')) \<subseteq> set (materialDict (fig w1)))"
  using run_grow [OF assms] addMaterial_keeps_entries by blast

theorem registry_monotonicity_of_methods_witness:
  "list_all method_call
     [AddData arr2, AddMaterial mat1, CallScatter 0 arr1 [], AddAxes [(''fig'', str1)],
      SetFigureData str1] \<and>
   run gen0
     [AddData arr2, AddMaterial mat1, CallScatter 0 arr1 [], AddAxes [(''fig'', str1)],
      SetFigureData str1] world9 = Some world10 \<and>
   (''uu'', arr1) \<in> set (dataDict (fig world9)) \<and>
   (''uu'', arr1) \<in> set (dataDict (fig world10)) \<and>
   ''m1'' \<in> set (map fst (materialDict (fig world9))) \<and>
   ''m1'' \<in> set (map fst (materialDict (fig world10))) \<and>
   length (dataDict (fig world9)) \<le> length (dataDict (fig world10)) \<and>
   length (materialDict (fig world9)) \<le> length (materialDict (fig world10)) \<and>
   find_is (materialDict (fig world10)) mat1 \<noteq> None \<and>
   set (materialDict (fig world10)) \<subseteq>
     set (materialDict (fig (snd (Figure_addMaterial mat1 world10))))"
proof -
  have h1: "list_all method_call
     [AddData arr2, AddMaterial mat1, CallScatter 0 arr1 [], AddAxes [(''fig'', str1)],
      SetFigureData str1]"
    by simp
  have h2: "run gen0
     [AddData arr2, AddMaterial mat1, CallScatter 0 arr1 [], AddAxes [(''fig'', str1)],
      SetFigureData str1] world9 = Some world10"
    by code_simp
  have d: "(''uu'', arr1) \<in> set (dataDict (fig world9))" by code_simp
  have m: "''m1'' \<in> set (map fst (materialDict (fig world9)))" by code_simp
  have reg: "find_is (materialDict (fig world10)) mat1 \<noteq> None" by code_simp
  note inst = registry_monotonicity_of_methods [OF h2 h1]
  from inst have grow: "registries_grow world9 world10" by (rule conjunct1)
  from grow d have d': "(''uu'', arr1) \<in> set (dataDict (fig world10))"
    unfolding registries_grow_def by (meson subsetD)
  from grow m have m': "''m1'' \<in> set (map fst (materialDict (fig world10)))"
    unfolding registries_grow_def by (meson subsetD)
  from grow have l1: "length (dataDict (fig world9)) \<le> length (dataDict (fig world10))"
    and l2: "length (materialDict (fig world9)) \<le> length (materialDict (fig world10))"
    unfolding registries_grow_def by simp_all
  have "Figure_addMaterial mat1 world10 =
          (fst (Figure_addMaterial mat1 world10), snd (Figure_addMaterial mat1 world10))"
    by simp
  with inst [THEN conjunct2, THEN spec, THEN spec, THEN spec,
      of mat1 "fst (Figure_addMaterial mat1 world10)" "snd (Figure_addMaterial mat1 world10)"]
    reg
  have keep: "set (materialDict (fig world10)) \<subseteq>
     set (materialDict (fig (snd (Figure_addMaterial mat1 world10))))"
    by (meson)
  from h1 h2 d d' m m' l1 l2 reg keep show ?thesis by (intro conjI)
qed

text \<open>
  C9 as stated fails. After \<open>addData\<close> of an array the data registry has one entry, and
  after \<open>fig.data.clear()\<close> it has none. And \<open>addMaterial\<close> of a second material object
  with the \<open>ID\<close> of the registered one leaves the material registry without the entry of
  the first.
\<close>

theorem registry_entries_removed:
  "map_option (\<lambda>w'. dataDict (fig w')) (run gen0 [AddData arr1] world1) =
     Some [(''uu'', arr1)] \<and>
   map_option (\<lambda>w'. dataDict (fig w')) (run gen0 [AddData arr1, DataClear] world1) = Some [] \<and>
   materialDict (fig world9) = [(''m1'', mat1)] \<and> \<not> py_is mat2 mat1 \<and>
   fst (Figure_addMaterial mat2 world9) = Inr mat2 \<and>
   materialDict (fig (snd (Figure_addMaterial mat2 world9))) = [(''m1'', mat2)]"
  by code_simp

lemma addData_frame:
  assumes "Figure_addData gen b w = Some (r, w')"
  shows "ID (fig w') = ID (fig w) \<and> axes (fig w') = axes (fig w) \<and>
         materialDict (fig w') = materialDict (fig w) \<and> hook_calls w' = hook_calls w \<and>
         lib_ctr w' = lib_ctr w"
  using assms
  by (auto simp: Figure_addData_def split: if_splits option.splits)

lemma addData_Inl:
  "Figure_addData gen b w = Some (Inl e, w') \<Longrightarrow> w' = w \<and> \<not> type_is_ndarray b"
  by (auto simp: Figure_addData_def split: if_splits option.splits)

lemma addMaterial_frame:
  assumes "Figure_addMaterial m w = (r, w')"
  shows "ID (fig w') = ID (fig w) \<and> axes (fig w') = axes (fig w) \<and>
         dataDict (fig w') = dataDict (fig w) \<and> uuid_ctr w' = uuid_ctr w \<and>
         lib_ctr w' = lib_ctr w"
  using assms
  by (auto simp: Figure_addMaterial_def Material_addToFigure_def Let_def
      split: if_splits option.splits sum.splits)

lemma addMaterial_Inl:
  assumes "Figure_addMaterial m w = (Inl e, w')"
  shows "w' = w \<and> \<not> isinstance_Material m"
proof (cases "isinstance_Material m")
  case True
  show ?thesis
  proof (cases "find_is (materialDict (fig w)) m")
    case None
    from addMaterial_new [OF True None] assms show ?thesis by auto
  next
    case (Some mat)
    from addMaterial_found [OF True Some] assms show ?thesis by simp
  qed
next
  case False
  with assms show ?thesis by (simp add: Figure_addMaterial_def)
qed

lemma addMaterial_Inr:
  assumes "isinstance_Material m"
  shows "\<exists>r w'. Figure_addMaterial m w = (Inr r, w')"
proof (cases "find_is (materialDict (fig w)) m")
  case None
  from addMaterial_new [OF assms None] show ?thesis by blast
next
  case (Some mat)
  from addMaterial_found [OF assms Some] show ?thesis by blast
qed

lemma RenderObject_init_frame:
  assumes "RenderObject_init mk c gen v kwargs w = Some (r, w')"
  shows "ID (fig w') = ID (fig w) \<and> axes (fig w') = axes (fig w)"
  using RenderObject_init_result [OF assms]
proof (elim disjE exE conjE)
  fix k
  assume "w' = w"
  then show ?thesis by simp
next
  fix e
  assume "Figure_addData gen v w = Some (Inl e, w')"
  from addData_frame [OF this] show ?thesis by simp
next
  fix dataID w1 dflt w2 r2
  assume a: "Figure_addData gen v w = Some (Inr dataID, w1)"
    and n: "new_Material c gen w1 = (dflt, w2)"
    and m: "Figure_addMaterial (pop_default kwargs ''material'' dflt) w2 = (r2, w')"
  from addData_frame [OF a] new_Material_frame [OF n] addMaterial_frame [OF m]
  show ?thesis by simp
qed

lemma RenderObject_init_Inl:
  assumes "RenderObject_init mk c gen v kwargs w = Some (Inl e, w')"
  shows "(w' = w \<and>
          (\<not> type_is_ndarray v \<or> keyword_clash RenderObject_params kwargs \<noteq> None)) \<or>
         (\<exists>dataID w1. Figure_addData gen v w = Some (Inr dataID, w1) \<and> fig w' = fig w1 \<and>
            hook_calls w' = hook_calls w)"
  using RenderObject_init_result [OF assms]
proof (elim disjE exE conjE)
  fix k
  assume "keyword_clash RenderObject_params kwargs = Some k" and "w' = w"
  then show ?thesis by simp
next
  fix e'
  assume "Figure_addData gen v w = Some (Inl e', w')"
  from addData_Inl [OF this] show ?thesis by simp
next
  fix dataID w1 dflt w2 r2
  assume a: "Figure_addData gen v w = Some (Inr dataID, w1)"
    and n: "new_Material c gen w1 = (dflt, w2)"
    and m: "Figure_addMaterial (pop_default kwargs ''material'' dflt) w2 = (r2, w')"
    and r: "Inl e = (case r2 of Inl e \<Rightarrow> Inl e
                     | Inr _ \<Rightarrow> Inr (mk dataID (pop_default kwargs ''material'' dflt)))"
  from r obtain e2 where "r2 = Inl e2" by (cases r2) auto
  with m addMaterial_Inl have "w' = w2" by blast
  with new_Material_frame [OF n] addData_frame [OF a] a show ?thesis by simp
qed

lemma scatter_Inl:
  assumes "Axes_scatter gen i v kwargs w = Some (Inl e, w')"
  shows "(w' = w \<and>
          (\<not> type_is_ndarray v \<or> keyword_clash RenderObject_params kwargs \<noteq> None)) \<or>
         (\<exists>dataID w1. Figure_addData gen v w = Some (Inr dataID, w1) \<and> fig w' = fig w1 \<and>
            hook_calls w' = hook_calls w)"
proof -
  from assms consider "w' = w \<and> \<not> type_is_ndarray v"
    | "Scatter_init gen v kwargs w = Some (Inl e, w')"
    by (auto simp: Axes_scatter_def split: if_splits option.splits sum.splits)
  then show ?thesis
  proof cases
    case 1
    then show ?thesis by simp
  next
    case 2
    then show ?thesis unfolding Scatter_init_def by (rule RenderObject_init_Inl)
  qed
qed

lemma surface_Inl:
  assumes "Axes_surface gen i v kwargs w = Some (Inl e, w')"
  shows "(w' = w \<and>
          (\<not> type_is_ndarray v \<or> keyword_clash RenderObject_params kwargs \<noteq> None)) \<or>
         (\<exists>dataID w1. Figure_addData gen v w = Some (Inr dataID, w1) \<and> fig w' = fig w1 \<and>
            hook_calls w' = hook_calls w)"
proof -
  from assms consider "w' = w \<and> \<not> type_is_ndarray v"
    | "Surface_init gen v kwargs w = Some (Inl e, w')"
    by (auto simp: Axes_surface_def split: if_splits option.splits sum.splits)
  then show ?thesis
  proof cases
    case 1
    then show ?thesis by simp
  next
    case 2
    then show ?thesis unfolding Surface_init_def by (rule RenderObject_init_Inl)
  qed
qed

section \<open>What a failed call leaves behind\<close>

text \<open>
  C3, as the code has it. A call of \<open>addData\<close> or \<open>addMaterial\<close> that raises leaves
  the whole state as it was. A call of \<open>scatter\<close> or \<open>surface\<close> that raises either
  found a vertex that is no array or a keyword named like a positional parameter of the
  constructor, and then left the whole state as it was, or raised when it registered
  the material: then the figure is the one that \<open>addData(vertex)\<close> gives, that is, the
  vertex has been registered like any buffer, while the Axes, the material registry,
  the figure's \<open>ID\<close> and the trace of hook calls are as before.
\<close>

theorem failed_call_state:
  "(Figure_addData gen b w = Some (Inl e, w') \<longrightarrow> w' = w) \<and>
   (Figure_addMaterial m w = (Inl e, w') \<longrightarrow> w' = w) \<and>
   (Axes_scatter gen i v kwargs w = Some (Inl e, w') \<or>
    Axes_surface gen i v kwargs w = Some (Inl e, w') \<longrightarrow>
      ((\<not> type_is_ndarray v \<or> keyword_clash RenderObject_params kwargs \<noteq> None) \<and>
       w' = w \<or>
       (\<exists>dataID w1. Figure_addData gen v w = Some (Inr dataID, w1) \<and> fig w' = fig w1)) \<and>
      axes (fig w') = axes (fig w) \<and> materialDict (fig w') = materialDict (fig w) \<and>
      ID (fig w') = ID (fig w) \<and> hook_calls w' = hook_calls w)"
proof (intro conjI impI)
  assume "Figure_addData gen b w = Some (Inl e, w')"
  from addData_Inl [OF this] show "w' = w" by simp
next
  assume "Figure_addMaterial m w = (Inl e, w')"
  from addMaterial_Inl [OF this] show "w' = w" by simp
next
  assume "Axes_scatter gen i v kwargs w = Some (Inl e, w') \<or>
          Axes_surface gen i v kwargs w = Some (Inl e, w')"
  then have cases: "(w' = w \<and>
          (\<not> type_is_ndarray v \<or> keyword_clash RenderObject_params kwargs \<noteq> None)) \<or>
         (\<exists>dataID w1. Figure_addData gen v w = Some (Inr dataID, w1) \<and> fig w' = fig w1 \<and>
            hook_calls w' = hook_calls w)"
    using scatter_Inl surface_Inl by blast
  then show "(\<not> type_is_ndarray v \<or> keyword_clash RenderObject_params kwargs \<noteq> None) \<and>
       w' = w \<or>
       (\<exists>dataID w1. Figure_addData gen v w = Some (Inr dataID, w1) \<and> fig w' = fig w1)"
    by blast
  from cases show "axes (fig w') = axes (fig w)"
    by (auto dest: addData_frame)
  from cases show "materialDict (fig w') = materialDict (fig w)"
    by (auto dest: addData_frame)
  from cases show "ID (fig w') = ID (fig w)"
    by (auto dest: addData_frame)
  from cases show "hook_calls w' = hook_calls w"
    by auto
qed

theorem failed_call_state_witness:
  "Figure_addData gen0 str1 world1 =
     Some (Inl (TypeError ''Expecting Numpy ndarray object''), world1) \<and>
   Figure_addMaterial str1 world1 = (Inl (TypeError ''Expecting Material object''), world1) \<and>
   Axes_surface gen0 0 str1 [] world1 =
     Some (Inl (TypeError ''Expecting a Numpy NDArray object''), world1) \<and>
   Axes_scatter gen0 0 arr1 [(''material'', str1)] world1 =
     Some (Inl (TypeError ''Expecting Material object''), world7) \<and>
   type_is_ndarray arr1 \<and>
   keyword_clash RenderObject_params [(''material'', str1)] = None \<and>
   Figure_addData gen0 arr1 world1 = Some (Inr ''uu'', world2) \<and>
   fig world7 = fig world2 \<and> axes (fig world7) = axes (fig world1) \<and>
   materialDict (fig world7) = materialDict (fig world1) \<and>
   ID (fig world7) = ID (fig world1) \<and> hook_calls world7 = hook_calls world1 \<and>
   keyword_clash RenderObject_params [(''axes'', str1)] \<noteq> None \<and>
   Axes_scatter gen0 0 arr1 [(''axes'', str1)] world1 =
     Some (Inl (multiple_values ''__init__'' ''axes''), world1)"
proof -
  have a: "Figure_addData gen0 str1 world1 =
             Some (Inl (TypeError ''Expecting Numpy ndarray object''), world1)"
    by code_simp
  have b: "Figure_addMaterial str1 world1 =
             (Inl (TypeError ''Expecting Material object''), world1)"
    by code_simp
  have c: "Axes_surface gen0 0 str1 [] world1 =
             Some (Inl (TypeError ''Expecting a Numpy NDArray object''), world1)"
    by code_simp
  have d: "Axes_scatter gen0 0 arr1 [(''material'', str1)] world1 =
             Some (Inl (TypeError ''Expecting Material object''), world7)"
    by code_simp
  have nd: "type_is_ndarray arr1" by code_simp
  have free: "keyword_clash RenderObject_params [(''material'', str1)] = None" by code_simp
  have reg: "Figure_addData gen0 arr1 world1 = Some (Inr ''uu'', world2)" by code_simp
  have clash: "keyword_clash RenderObject_params [(''axes'', str1)] \<noteq> None" by code_simp
  have e: "Axes_scatter gen0 0 arr1 [(''axes'', str1)] world1 =
             Some (Inl (multiple_values ''__init__'' ''axes''), world1)"
    by code_simp
  from d nd free reg
    failed_call_state [of gen0 str1 world1 "TypeError ''Expecting Material object''" world7
      str1 0 arr1 "[(''material'', str1)]"]
  have "fig world7 = fig world2 \<and> axes (fig world7) = axes (fig world1) \<and>
        materialDict (fig world7) = materialDict (fig world1) \<and>
        ID (fig world7) = ID (fig world1) \<and> hook_calls world7 = hook_calls world1"
    by auto
  with a b c d nd free reg clash e show ?thesis by blast
qed

text \<open>
  C3 as stated fails: \<open>scatter\<close> of an array with a string for its material raises
  \<open>TypeError\<close>, and the data registry, empty before the call, holds the array after it.
\<close>

theorem failed_scatter_registers_vertex:
  "map_option (\<lambda>(r, w'). (r, dataDict (fig w')))
     (Axes_scatter gen0 0 arr1 [(''material'', str1)] world1) =
     Some (Inl (TypeError ''Expecting Material object''), [(''uu'', arr1)]) \<and>
   dataDict (fig world1) = []"
  by code_simp

lemma scatter_ID:
  assumes "Axes_scatter gen i v kwargs w = Some (r, w')"
  shows "ID (fig w') = ID (fig w)"
proof -
  from assms consider "w' = w"
    | e where "Scatter_init gen v kwargs w = Some (Inl e, w')"
    | obj w1 where "Scatter_init gen v kwargs w = Some (Inr obj, w1)"
        and "w' = append_renderObject i obj w1"
    by (auto simp: Axes_scatter_def split: if_splits option.splits sum.splits)
  then show ?thesis
  proof cases
    case 1
    then show ?thesis by simp
  next
    case 2
    then show ?thesis unfolding Scatter_init_def by (simp add: RenderObject_init_frame)
  next
    case 3
    from 3(1) have "ID (fig w1) = ID (fig w)"
      unfolding Scatter_init_def by (simp add: RenderObject_init_frame)
    with 3(2) show ?thesis by (simp add: append_renderObject_frame)
  qed
qed

lemma surface_ID:
  assumes "Axes_surface gen i v kwargs w = Some (r, w')"
  shows "ID (fig w') = ID (fig w)"
proof -
  from assms consider "w' = w"
    | e where "Surface_init gen v kwargs w = Some (Inl e, w')"
    | obj w1 where "Surface_init gen v kwargs w = Some (Inr obj, w1)"
        and "w' = append_renderObject i obj w1"
    by (auto simp: Axes_surface_def split: if_splits option.splits sum.splits)
  then show ?thesis
  proof cases
    case 1
    then show ?thesis by simp
  next
    case 2
    then show ?thesis unfolding Surface_init_def by (simp add: RenderObject_init_frame)
  next
    case 3
    from 3(1) have "ID (fig w1) = ID (fig w)"
      unfolding Surface_init_def by (simp add: RenderObject_init_frame)
    with 3(2) show ?thesis by (simp add: append_renderObject_frame)
  qed
qed

lemma exec_ID:
  assumes "exec gen c w = Some w'" and "\<not> is_SetID c"
  shows "ID (fig w') = ID (fig w)"
proof (cases c)
  case (AddData b)
  with assms show ?thesis by (auto dest: addData_frame)
next
  case (AddMaterial m)
  with assms show ?thesis by (cases "Figure_addMaterial m w") (auto dest: addMaterial_frame)
next
  case (AddAxes kwargs)
  with assms show ?thesis by (auto simp: Figure_addAxes_def split: sum.splits)
next
  case (CallScatter i v kwargs)
  with assms show ?thesis by (auto dest: scatter_ID)
next
  case (CallSurface i v kwargs)
  with assms show ?thesis by (auto dest: surface_ID)
next
  case (AddRenderObject i obj)
  with assms show ?thesis
    by (auto simp: Axes_addRenderObject_def append_renderObject_frame split: if_splits)
next
  case (SetID v)
  with assms show ?thesis by simp
next
  case (SetFigureData v)
  with assms show ?thesis by (auto simp: Figure_data_set_def)
next
  case (SetAxesData v)
  with assms show ?thesis by (auto simp: Axes_data_set_def)
next
  case DataClear
  with assms show ?thesis by (auto simp: Figure_data_get_def)
next
  case (DataDelItem k)
  with assms show ?thesis by (auto simp: Figure_data_get_def split: sum.splits)
next
  case (DataSetItem k v)
  with assms show ?thesis by (auto simp: Figure_data_get_def)
qed

lemma run_ID:
  "run gen cs w = Some w' \<Longrightarrow> list_all (\<lambda>c. \<not> is_SetID c) cs \<Longrightarrow> ID (fig w') = ID (fig w)"
proof (induction cs arbitrary: w)
  case Nil
  then show ?case by simp
next
  case (Cons c cs)
  from Cons.prems(1) obtain w1 where
    step: "exec gen c w = Some w1" and rest: "run gen cs w1 = Some w'"
    by (auto split: option.splits)
  from Cons.prems(2) have c: "\<not> is_SetID c" and cs: "list_all (\<lambda>c. \<not> is_SetID c) cs"
    by simp_all
  from exec_ID [OF step c] Cons.IH [OF rest cs] show ?case by simp
qed

section \<open>The figure's ID\<close>

text \<open>
  C4, as the code has it. The constructor gives the figure the first identifier of
  the generator as its \<open>ID\<close>. No sequence of calls other than assignments to the
  property \<open>ID\<close> changes it: not \<open>addData\<close>, \<open>addMaterial\<close>, \<open>addAxes\<close>, \<open>scatter\<close>,
  \<open>surface\<close>, \<open>addRenderObject\<close>, an assignment to \<open>data\<close> or a change of the
  dictionary that \<open>data\<close> returns. The property has a setter, and an assignment
  \<open>fig.ID = v\<close> makes \<open>v\<close> the figure's \<open>ID\<close>.
\<close>

theorem Figure_ID_changed_by_setter_only:
  assumes "run gen cs w = Some w'" and "list_all (\<lambda>c. \<not> is_SetID c) cs"
  shows "Figure_ID_get (init_world gen) = PyStr (gen 0) \<and>
         Figure_ID_get w' = Figure_ID_get w \<and>
         Figure_ID_set v w' = (Inr (), w'\<lparr>fig := (fig w')\<lparr>ID := val v\<rparr>\<rparr>) \<and>
         Figure_ID_get (snd (Figure_ID_set v w')) = val v"
  using run_ID [OF assms]
  by (simp add: Figure_ID_get_def Figure_ID_set_def init_world_def Figure_init_def)

theorem Figure_ID_changed_by_setter_only_witness:
  "list_all (\<lambda>c. \<not> is_SetID c)
     [AddData arr1, AddAxes [], CallScatter 0 arr2 [], SetFigureData str1, AddMaterial mat1] \<and>
   (\<exists>w'. run gen0
      [AddData arr1, AddAxes [], CallScatter 0 arr2 [], SetFigureData str1, AddMaterial mat1]
      world1 = Some w' \<and>
      Figure_ID_get w' = Figure_ID_get world1 \<and>
      Figure_ID_get (snd (Figure_ID_set str1 w')) = val str1)"
proof -
  have h: "list_all (\<lambda>c. \<not> is_SetID c)
     [AddData arr1, AddAxes [], CallScatter 0 arr2 [], SetFigureData str1, AddMaterial mat1]"
    by simp
  have "run gen0
      [AddData arr1, AddAxes [], CallScatter 0 arr2 [], SetFigureData str1, AddMaterial mat1]
      world1 \<noteq> None"
    by code_simp
  then obtain w' where r: "run gen0
      [AddData arr1, AddAxes [], CallScatter 0 arr2 [], SetFigureData str1, AddMaterial mat1]
      world1 = Some w'"
    by auto
  from Figure_ID_changed_by_setter_only [OF r h, of str1] r h show ?thesis by blast
qed

text \<open>
  C4 as stated fails: after the assignment \<open>fig.ID = 'not an array'\<close> the figure's
  \<open>ID\<close> is no longer the one it was constructed with.
\<close>

theorem Figure_ID_assignment_changes_ID:
  "Figure_ID_get world1 = PyStr ''u'' \<and>
   Figure_ID_get (snd (Figure_ID_set str1 world1)) = PyStr ''not an array'' \<and>
   Figure_ID_get (snd (Figure_ID_set str1 world1)) \<noteq> Figure_ID_get world1"
  by code_simp

lemma RenderObject_init_Inr:
  assumes "RenderObject_init mk c gen v kwargs w = Some (Inr obj, w')"
  shows "\<exists>dataID m. obj = mk dataID m \<and> isinstance_Material m \<and>
           (\<exists>e. find_is (dataDict (fig w')) v = Some e \<and> fst e = dataID) \<and>
           axes (fig w') = axes (fig w)"
  using RenderObject_init_result [OF assms]
proof (elim disjE exE conjE)
  fix k
  assume "Inr obj = Inl (multiple_values ''__init__'' k)"
  then show ?thesis by simp
next
  fix e
  assume "Inr obj = Inl e"
  then show ?thesis by simp
next
  fix dataID w1 dflt w2 r2
  assume a: "Figure_addData gen v w = Some (Inr dataID, w1)"
    and n: "new_Material c gen w1 = (dflt, w2)"
    and m: "Figure_addMaterial (pop_default kwargs ''material'' dflt) w2 = (r2, w')"
    and r: "Inr obj = (case r2 of Inl e \<Rightarrow> Inl e
                       | Inr _ \<Rightarrow> Inr (mk dataID (pop_default kwargs ''material'' dflt)))"
  let ?m = "pop_default kwargs ''material'' dflt"
  from r obtain m' where r2: "r2 = Inr m'" and obj: "obj = mk dataID ?m"
    by (cases r2) auto
  have mat: "isinstance_Material ?m"
  proof (rule ccontr)
    assume "\<not> isinstance_Material ?m"
    from addMaterial_TypeError [OF this, of w2] m r2 show False by simp
  qed
  from addData_registers [OF a] obtain e where
    "find_is (dataDict (fig w1)) v = Some e" and "fst e = dataID" by auto
  moreover from new_Material_frame [OF n] addMaterial_frame [OF m]
  have "dataDict (fig w') = dataDict (fig w1)" by simp
  ultimately have reg: "\<exists>e. find_is (dataDict (fig w')) v = Some e \<and> fst e = dataID"
    by simp
  from addData_frame [OF a] new_Material_frame [OF n] addMaterial_frame [OF m]
  have "axes (fig w') = axes (fig w)" by simp
  with obj mat reg show ?thesis by blast
qed

lemma RenderObject_init_returns:
  assumes nd: "type_is_ndarray v"
    and free: "keyword_clash RenderObject_params kwargs = None"
    and kw: "case map_of kwargs ''material'' of None \<Rightarrow> True | Some m \<Rightarrow> isinstance_Material m"
    and k: "\<not> has_key (dataDict (fig w)) (gen (uuid_ctr w + k))"
  shows "\<exists>obj w'. RenderObject_init mk c gen v kwargs w = Some (Inr obj, w')"
proof -
  from k addData_returns [of w gen k v] obtain r w1 where
    a: "Figure_addData gen v w = Some (r, w1)" by blast
  from addData_ndarray_Inr [OF nd a] obtain dataID where r: "r = Inr dataID" ..
  obtain dflt w2 where n: "new_Material c gen w1 = (dflt, w2)"
    by (cases "new_Material c gen w1")
  from new_Material_frame [OF n] kw have "isinstance_Material (pop_default kwargs ''material'' dflt)"
    by (simp add: pop_default_def split: option.splits)
  from addMaterial_Inr [OF this, of w2] obtain m' w' where
    "Figure_addMaterial (pop_default kwargs ''material'' dflt) w2 = (Inr m', w')" by blast
  with a r n free show ?thesis
    by (simp add: RenderObject_init_def Axes_addData_def Axes_addMaterial_def)
qed

lemma RenderObject_init_bad_material:
  assumes nd: "type_is_ndarray v"
    and free: "keyword_clash RenderObject_params kwargs = None"
    and kw: "map_of kwargs ''material'' = Some m" and bad: "\<not> isinstance_Material m"
    and k: "\<not> has_key (dataDict (fig w)) (gen (uuid_ctr w + k))"
  shows "\<exists>w'. RenderObject_init mk c gen v kwargs w =
           Some (Inl (TypeError ''Expecting Material object''), w')"
proof -
  from k addData_returns [of w gen k v] obtain r w1 where
    a: "Figure_addData gen v w = Some (r, w1)" by blast
  from addData_ndarray_Inr [OF nd a] obtain dataID where r: "r = Inr dataID" ..
  obtain dflt w2 where n: "new_Material c gen w1 = (dflt, w2)"
    by (cases "new_Material c gen w1")
  from kw have "pop_default kwargs ''material'' dflt = m"
    by (simp add: pop_default_def)
  with addMaterial_TypeError [OF bad, of w2] a r n free show ?thesis
    by (simp add: RenderObject_init_def Axes_addData_def Axes_addMaterial_def)
qed

lemma RenderObject_init_clash:
  "keyword_clash RenderObject_params kwargs = Some k \<Longrightarrow>
   RenderObject_init mk c gen v kwargs w = Some (Inl (multiple_values ''__init__'' k), w)"
  by (simp add: RenderObject_init_def)

lemma factory_Inl_axes:
  assumes "Axes_scatter gen i v kwargs w = Some (Inl e, w') \<or>
           Axes_surface gen i v kwargs w = Some (Inl e, w')"
  shows "axes (fig w') = axes (fig w)"
proof -
  from assms have "(w' = w \<and>
          (\<not> type_is_ndarray v \<or> keyword_clash RenderObject_params kwargs \<noteq> None)) \<or>
         (\<exists>dataID w1. Figure_addData gen v w = Some (Inr dataID, w1) \<and> fig w' = fig w1 \<and>
            hook_calls w' = hook_calls w)"
    using scatter_Inl surface_Inl by blast
  then show ?thesis by (auto dest: addData_frame)
qed

section \<open>What the factory methods return\<close>

text \<open>
  C10, as the code has it. For an Axes of the figure and a vertex that is an array: a
  call of \<open>scatter\<close> or \<open>surface\<close> that returns gives \<open>None\<close>, and the Axes has one more
  render object at the end of its list, a Scatter (Surface) holding the ID under which
  the vertex is registered and a material; a call that raises adds no render object.
  Which of the two happens: with no keyword named like a positional parameter of the
  constructor (\<open>self\<close>, \<open>axes\<close>, \<open>vertex\<close>) and a generator that yields an identifier
  that is no key of the data registry, the call returns \<open>None\<close> when no material or a
  material is given, and raises \<open>TypeError\<close> when the material given is no material;
  with such a keyword it raises \<open>TypeError\<close> and leaves the state as it was.
  \<open>Figure.addAxes\<close> returns the Axes it has constructed, which is the last of the
  figure's list afterwards, unless a keyword is named \<open>self\<close> or \<open>fig\<close>: then it raises
  \<open>TypeError\<close> and leaves the state as it was.
\<close>

theorem factory_return_values:
  assumes "i < length (axes (fig w))" and "type_is_ndarray v"
  shows "(\<forall>r w'. Axes_scatter gen i v kwargs w = Some (Inr r, w') \<longrightarrow>
            r = PyNone \<and>
            (\<exists>dataID m. isinstance_Material m \<and>
               (\<exists>e. find_is (dataDict (fig w')) v = Some e \<and> fst e = dataID) \<and>
               axes (fig w') = (axes (fig w))
                 [i := (axes (fig w) ! i)
                    \<lparr>renderObjects := renderObjects (axes (fig w) ! i) @ [Scatter dataID m]\<rparr>])) \<and>
         (\<forall>r w'. Axes_surface gen i v kwargs w = Some (Inr r, w') \<longrightarrow>
            r = PyNone \<and>
            (\<exists>dataID m. isinstance_Material m \<and>
               (\<exists>e. find_is (dataDict (fig w')) v = Some e \<and> fst e = dataID) \<and>
               axes (fig w') = (axes (fig w))
                 [i := (axes (fig w) ! i)
                    \<lparr>renderObjects := renderObjects (axes (fig w) ! i) @ [Surface dataID m]\<rparr>])) \<and>
         (\<forall>e w'. Axes_scatter gen i v kwargs w = Some (Inl e, w') \<or>
                 Axes_surface gen i v kwargs w = Some (Inl e, w') \<longrightarrow>
            axes (fig w') = axes (fig w)) \<and>
         (\<forall>k. keyword_clash RenderObject_params kwargs = None \<and>
              (case map_of kwargs ''material'' of None \<Rightarrow> True
               | Some m \<Rightarrow> isinstance_Material m) \<and>
              \<not> has_key (dataDict (fig w)) (gen (uuid_ctr w + k)) \<longrightarrow>
            (\<exists>w'. Axes_scatter gen i v kwargs w = Some (Inr PyNone, w')) \<and>
            (\<exists>w'. Axes_surface gen i v kwargs w = Some (Inr PyNone, w'))) \<and>
         (\<forall>k m. keyword_clash RenderObject_params kwargs = None \<and>
              map_of kwargs ''material'' = Some m \<and> \<not> isinstance_Material m \<and>
              \<not> has_key (dataDict (fig w)) (gen (uuid_ctr w + k)) \<longrightarrow>
            (\<exists>w'. Axes_scatter gen i v kwargs w =
                    Some (Inl (TypeError ''Expecting Material object''), w')) \<and>
            (\<exists>w'. Axes_surface gen i v kwargs w =
                    Some (Inl (TypeError ''Expecting Material object''), w'))) \<and>
         (\<forall>k. keyword_clash RenderObject_params kwargs = Some k \<longrightarrow>
            Axes_scatter gen i v kwargs w = Some (Inl (multiple_values ''__init__'' k), w) \<and>
            Axes_surface gen i v kwargs w = Some (Inl (multiple_values ''__init__'' k), w)) \<and>
         (keyword_clash Axes_params kw = None \<longrightarrow>
            Figure_addAxes kw w =
              (Inr (length (axes (fig w)), Axes_init kw),
               w\<lparr>fig := (fig w)\<lparr>axes := axes (fig w) @ [Axes_init kw]\<rparr>\<rparr>)) \<and>
         (\<forall>k. keyword_clash Axes_params kw = Some k \<longrightarrow>
            Figure_addAxes kw w = (Inl (multiple_values ''__init__'' k), w))"
proof (intro conjI allI impI)
  fix r w'
  assume call: "Axes_scatter gen i v kwargs w = Some (Inr r, w')"
  with assms obtain obj w1 where
    init: "Scatter_init gen v kwargs w = Some (Inr obj, w1)"
    and w': "w' = append_renderObject i obj w1" and r: "r = PyNone"
    by (auto simp: Axes_scatter_def split: option.splits sum.splits)
  from r show "r = PyNone" .
  from init RenderObject_init_Inr [of Scatter PointMaterial gen v kwargs w obj w1]
  obtain dataID m e where "obj = Scatter dataID m" and "isinstance_Material m"
    and "find_is (dataDict (fig w1)) v = Some e" and "fst e = dataID"
    and "axes (fig w1) = axes (fig w)"
    unfolding Scatter_init_def by blast
  with w' show "\<exists>dataID m. isinstance_Material m \<and>
               (\<exists>e. find_is (dataDict (fig w')) v = Some e \<and> fst e = dataID) \<and>
               axes (fig w') = (axes (fig w))
                 [i := (axes (fig w) ! i)
                    \<lparr>renderObjects := renderObjects (axes (fig w) ! i) @ [Scatter dataID m]\<rparr>]"
    by (auto simp: append_renderObject_def)
next
  fix r w'
  assume call: "Axes_surface gen i v kwargs w = Some (Inr r, w')"
  with assms obtain obj w1 where
    init: "Surface_init gen v kwargs w = Some (Inr obj, w1)"
    and w': "w' = append_renderObject i obj w1" and r: "r = PyNone"
    by (auto simp: Axes_surface_def split: option.splits sum.splits)
  from r show "r = PyNone" .
  from init RenderObject_init_Inr [of Surface WireframeMaterial gen v kwargs w obj w1]
  obtain dataID m e where "obj = Surface dataID m" and "isinstance_Material m"
    and "find_is (dataDict (fig w1)) v = Some e" and "fst e = dataID"
    and "axes (fig w1) = axes (fig w)"
    unfolding Surface_init_def by blast
  with w' show "\<exists>dataID m. isinstance_Material m \<and>
               (\<exists>e. find_is (dataDict (fig w')) v = Some e \<and> fst e = dataID) \<and>
               axes (fig w') = (axes (fig w))
                 [i := (axes (fig w) ! i)
                    \<lparr>renderObjects := renderObjects (axes (fig w) ! i) @ [Surface dataID m]\<rparr>]"
    by (auto simp: append_renderObject_def)
next
  fix e w'
  assume "Axes_scatter gen i v kwargs w = Some (Inl e, w') \<or>
          Axes_surface gen i v kwargs w = Some (Inl e, w')"
  then show "axes (fig w') = axes (fig w)" by (rule factory_Inl_axes)
next
  fix k
  assume h: "keyword_clash RenderObject_params kwargs = None \<and>
             (case map_of kwargs ''material'' of None \<Rightarrow> True
              | Some m \<Rightarrow> isinstance_Material m) \<and>
             \<not> has_key (dataDict (fig w)) (gen (uuid_ctr w + k))"
  then have free: "keyword_clash RenderObject_params kwargs = None"
    and kw: "case map_of kwargs ''material'' of None \<Rightarrow> True
             | Some m \<Rightarrow> isinstance_Material m"
    and k: "\<not> has_key (dataDict (fig w)) (gen (uuid_ctr w + k))"
    by simp_all
  from RenderObject_init_returns [of v kwargs w gen k Scatter PointMaterial, OF assms(2) free kw k]
  obtain obj w1 where "Scatter_init gen v kwargs w = Some (Inr obj, w1)"
    unfolding Scatter_init_def by blast
  with assms show "\<exists>w'. Axes_scatter gen i v kwargs w = Some (Inr PyNone, w')"
    by (simp add: Axes_scatter_def)
  from RenderObject_init_returns [of v kwargs w gen k Surface WireframeMaterial, OF assms(2) free kw k]
  obtain obj w1 where "Surface_init gen v kwargs w = Some (Inr obj, w1)"
    unfolding Surface_init_def by blast
  with assms show "\<exists>w'. Axes_surface gen i v kwargs w = Some (Inr PyNone, w')"
    by (simp add: Axes_surface_def)
next
  fix k m
  assume h: "keyword_clash RenderObject_params kwargs = None \<and>
             map_of kwargs ''material'' = Some m \<and> \<not> isinstance_Material m \<and>
             \<not> has_key (dataDict (fig w)) (gen (uuid_ctr w + k))"
  then have free: "keyword_clash RenderObject_params kwargs = None"
    and kw: "map_of kwargs ''material'' = Some m" and bad: "\<not> isinstance_Material m"
    and k: "\<not> has_key (dataDict (fig w)) (gen (uuid_ctr w + k))"
    by simp_all
  from RenderObject_init_bad_material
    [of v kwargs m w gen k Scatter PointMaterial, OF assms(2) free kw bad k]
  obtain w1 where
    "Scatter_init gen v kwargs w = Some (Inl (TypeError ''Expecting Material object''), w1)"
    unfolding Scatter_init_def by blast
  with assms show "\<exists>w'. Axes_scatter gen i v kwargs w =
                    Some (Inl (TypeError ''Expecting Material object''), w')"
    by (simp add: Axes_scatter_def)
  from RenderObject_init_bad_material
    [of v kwargs m w gen k Surface WireframeMaterial, OF assms(2) free kw bad k]
  obtain w1 where
    "Surface_init gen v kwargs w = Some (Inl (TypeError ''Expecting Material object''), w1)"
    unfolding Surface_init_def by blast
  with assms show "\<exists>w'. Axes_surface gen i v kwargs w =
                    Some (Inl (TypeError ''Expecting Material object''), w')"
    by (simp add: Axes_surface_def)
next
  fix k
  assume h: "keyword_clash RenderObject_params kwargs = Some k"
  with assms show
    "Axes_scatter gen i v kwargs w = Some (Inl (multiple_values ''__init__'' k), w)"
    by (simp add: Axes_scatter_def Scatter_init_def RenderObject_init_clash)
  from h assms show
    "Axes_surface gen i v kwargs w = Some (Inl (multiple_values ''__init__'' k), w)"
    by (simp add: Axes_surface_def Surface_init_def RenderObject_init_clash)
next
  assume "keyword_clash Axes_params kw = None"
  then show "Figure_addAxes kw w =
              (Inr (length (axes (fig w)), Axes_init kw),
               w\<lparr>fig := (fig w)\<lparr>axes := axes (fig w) @ [Axes_init kw]\<rparr>\<rparr>)"
    by (simp add: Figure_addAxes_def Axes_new_def)
next
  fix k
  assume "keyword_clash Axes_params kw = Some k"
  then show "Figure_addAxes kw w = (Inl (multiple_values ''__init__'' k), w)"
    by (simp add: Figure_addAxes_def Axes_new_def)
qed

theorem factory_return_values_witness:
  "0 < length (axes (fig world1)) \<and> type_is_ndarray arr1 \<and>
   keyword_clash RenderObject_params ([] :: (string \<times> pyobj) list) = None \<and>
   (case map_of ([] :: (string \<times> pyobj) list) ''material'' of None \<Rightarrow> True
    | Some m \<Rightarrow> isinstance_Material m) \<and>
   \<not> has_key (dataDict (fig world1)) (gen0 (uuid_ctr world1 + 0)) \<and>
   (\<exists>w'. Axes_scatter gen0 0 arr1 [] world1 = Some (Inr PyNone, w') \<and>
      (\<exists>dataID m. axes (fig w') = (axes (fig world1))
         [0 := (axes (fig world1) ! 0)
            \<lparr>renderObjects := renderObjects (axes (fig world1) ! 0) @ [Scatter dataID m]\<rparr>])) \<and>
   (\<exists>w'. Axes_surface gen0 0 arr1 [] world1 = Some (Inr PyNone, w') \<and>
      (\<exists>dataID m. axes (fig w') = (axes (fig world1))
         [0 := (axes (fig world1) ! 0)
            \<lparr>renderObjects := renderObjects (axes (fig world1) ! 0) @ [Surface dataID m]\<rparr>])) \<and>
   keyword_clash RenderObject_params [(''material'', str1)] = None \<and>
   map_of [(''material'', str1)] ''material'' = Some str1 \<and> \<not> isinstance_Material str1 \<and>
   (\<exists>w'. Axes_scatter gen0 0 arr1 [(''material'', str1)] world1 =
            Some (Inl (TypeError ''Expecting Material object''), w') \<and>
          axes (fig w') = axes (fig world1)) \<and>
   keyword_clash RenderObject_params [(''axes'', str1)] = Some ''axes'' \<and>
   Axes_surface gen0 0 arr1 [(''axes'', str1)] world1 =
     Some (Inl (multiple_values ''__init__'' ''axes''), world1) \<and>
   keyword_clash Axes_params ([] :: (string \<times> pyobj) list) = None \<and>
   Figure_addAxes [] world1 =
     (Inr (length (axes (fig world1)), Axes_init []),
      world1\<lparr>fig := (fig world1)\<lparr>axes := axes (fig world1) @ [Axes_init []]\<rparr>\<rparr>) \<and>
   keyword_clash Axes_params [(''fig'', str1)] = Some ''fig'' \<and>
   Figure_addAxes [(''fig'', str1)] world1 = (Inl (multiple_values ''__init__'' ''fig''), world1)"
proof -
  have h1: "0 < length (axes (fig world1))" by code_simp
  have h2: "type_is_ndarray arr1" by code_simp
  have h3: "keyword_clash RenderObject_params ([] :: (string \<times> pyobj) list) = None \<and>
            (case map_of ([] :: (string \<times> pyobj) list) ''material'' of None \<Rightarrow> True
             | Some m \<Rightarrow> isinstance_Material m)"
    by code_simp
  have h4: "\<not> has_key (dataDict (fig world1)) (gen0 (uuid_ctr world1 + 0))" by code_simp
  have h5: "keyword_clash RenderObject_params [(''material'', str1)] = None \<and>
            map_of [(''material'', str1)] ''material'' = Some str1 \<and>
            \<not> isinstance_Material str1"
    by code_simp
  have h6: "keyword_clash RenderObject_params [(''axes'', str1)] = Some ''axes''"
    by code_simp
  have h7: "keyword_clash Axes_params ([] :: (string \<times> pyobj) list) = None" by code_simp
  have h8: "keyword_clash Axes_params [(''fig'', str1)] = Some ''fig''" by code_simp
  note plain = factory_return_values [OF h1 h2, of gen0 "[]" "[]"]
  note bad = factory_return_values [OF h1 h2, of gen0 "[(''material'', str1)]" "[]"]
  note clash = factory_return_values [OF h1 h2, of gen0 "[(''axes'', str1)]" "[(''fig'', str1)]"]
  from plain h3 h4 obtain ws where
    sc: "Axes_scatter gen0 0 arr1 [] world1 = Some (Inr PyNone, ws)" by blast
  from plain h3 h4 obtain wf where
    sf: "Axes_surface gen0 0 arr1 [] world1 = Some (Inr PyNone, wf)" by blast
  from plain sc have c1: "\<exists>dataID m. axes (fig ws) = (axes (fig world1))
         [0 := (axes (fig world1) ! 0)
            \<lparr>renderObjects := renderObjects (axes (fig world1) ! 0) @ [Scatter dataID m]\<rparr>]"
    by blast
  from plain sf have c2: "\<exists>dataID m. axes (fig wf) = (axes (fig world1))
         [0 := (axes (fig world1) ! 0)
            \<lparr>renderObjects := renderObjects (axes (fig world1) ! 0) @ [Surface dataID m]\<rparr>]"
    by blast
  from bad h5 h4 obtain wb where
    sb: "Axes_scatter gen0 0 arr1 [(''material'', str1)] world1 =
           Some (Inl (TypeError ''Expecting Material object''), wb)" by blast
  from bad sb have c3: "axes (fig wb) = axes (fig world1)" by blast
  from clash h6 have c4: "Axes_surface gen0 0 arr1 [(''axes'', str1)] world1 =
     Some (Inl (multiple_values ''__init__'' ''axes''), world1)"
    by blast
  from plain h7 have c5: "Figure_addAxes [] world1 =
     (Inr (length (axes (fig world1)), Axes_init []),
      world1\<lparr>fig := (fig world1)\<lparr>axes := axes (fig world1) @ [Axes_init []]\<rparr>\<rparr>)"
    by blast
  from clash h8 have c6: "Figure_addAxes [(''fig'', str1)] world1 =
     (Inl (multiple_values ''__init__'' ''fig''), world1)"
    by blast
  from h1 h2 h3 h4 h5 h6 h7 h8 sc sf c1 c2 sb c3 c4 c5 c6 show ?thesis by blast
qed

text \<open>
  C10 as stated fails: \<open>scatter\<close> of an array with a string for its material does not
  return \<open>None\<close> but raises \<open>TypeError\<close>, and the Axes, which had no render object, has
  none after the call.
\<close>

theorem scatter_bad_material_appends_nothing:
  "type_is_ndarray arr1 \<and> map renderObjects (axes (fig world1)) = [[]] \<and>
   map_option (\<lambda>(r, w'). (r, map renderObjects (axes (fig w'))))
     (Axes_scatter gen0 0 arr1 [(''material'', str1)] world1) =
     Some (Inl (TypeError ''Expecting Material object''), [[]])"
  by code_simp

section \<open>Lemmas about rendering\<close>

lemma foldl_setitem_distinct:
  "distinct (map fst acc @ map fst d) \<Longrightarrow>
   foldl (\<lambda>acc item. setitem acc (fst item) (f (snd item))) acc d =
     acc @ map (\<lambda>item. (fst item, f (snd item))) d"
proof (induction d arbitrary: acc)
  case Nil
  then show ?case by simp
next
  case (Cons x d)
  from Cons.prems have fresh: "\<not> has_key acc (fst x)"
    by (auto simp: has_key_def)
  from Cons.prems have "distinct (map fst (acc @ [(fst x, f (snd x))]) @ map fst d)"
    by auto
  from Cons.IH [OF this] fresh show ?case
    by (simp add: setitem_fresh)
qed

lemma dict_of_items_distinct:
  "distinct (map fst d) \<Longrightarrow> dict_of_items f d = map (\<lambda>(k, v). (k, f v)) d"
  using foldl_setitem_distinct [of "[]" d f]
  by (simp add: dict_of_items_def case_prod_unfold)

lemma render_each_Inr_iff:
  "render_each r xs = Inr frs \<longleftrightarrow> list_all2 (\<lambda>x fr. r x = Inr fr) xs frs"
proof (induction xs arbitrary: frs)
  case Nil
  then show ?case by auto
next
  case (Cons x xs)
  show ?case
  proof (cases frs)
    case Nil
    then show ?thesis by (auto split: sum.splits)
  next
    case (Cons fr frs')
    with Cons.IH [of frs'] show ?thesis by (auto split: sum.splits)
  qed
qed

lemma render_each_succeeds:
  "list_all (\<lambda>x. \<exists>fr. r x = Inr fr) xs \<Longrightarrow> \<exists>frs. render_each r xs = Inr frs"
  by (induction xs) auto

lemma RenderObject_render_succeeds:
  "isinstance_Material (material_of obj) \<Longrightarrow> \<exists>js. RenderObject_render T obj = Inr js"
  by (cases obj) (auto dest: Material_ID_Inr)

lemma Axes_render_succeeds:
  assumes "list_all (\<lambda>obj. isinstance_Material (material_of obj)) (renderObjects a)"
  shows "\<exists>js. Axes_render T a = Inr js"
proof -
  from assms have "list_all (\<lambda>obj. \<exists>js. RenderObject_render T obj = Inr js) (renderObjects a)"
    by (simp add: list_all_iff RenderObject_render_succeeds)
  from render_each_succeeds [OF this] show ?thesis
    by (auto simp: Axes_render_def)
qed

lemma concat_two_fragments:
  assumes "i < j" and "j < length xs"
  shows "concat xs =
           concat (take i xs) @ xs ! i @ concat (drop (Suc i) (take j xs)) @ xs ! j @
           concat (drop (Suc j) xs)"
proof -
  from assms have xs: "xs = take j xs @ xs ! j # drop (Suc j) xs"
    by (simp add: id_take_nth_drop)
  from assms have "i < length (take j xs)" by simp
  then have "take j xs = take i (take j xs) @ take j xs ! i # drop (Suc i) (take j xs)"
    by (rule id_take_nth_drop)
  with assms have front: "take j xs = take i xs @ xs ! i # drop (Suc i) (take j xs)"
    by (simp add: min_def)
  have "concat xs = concat (take j xs) @ xs ! j @ concat (drop (Suc j) xs)"
    by (subst xs) simp
  also have "concat (take j xs) = concat (take i xs) @ xs ! i @ concat (drop (Suc i) (take j xs))"
    by (subst front) simp
  finally show ?thesis by simp
qed

section \<open>The order of the rendered scene\<close>

text \<open>
  C5. In a state whose dictionaries have no key twice and whose render objects hold
  materials, \<open>Figure.render()\<close> returns a string: the data template applied to the
  registered buffers keyed by their IDs, then the materials template applied to the
  registered materials keyed by their IDs, then the figure template applied to the
  figure's \<open>ID\<close>, then what \<open>render()\<close> of each Axes returns, in the order of the
  figure's list. So for an Axes at position \<open>i\<close> and one at a later position \<open>j\<close>, the
  output has the fragment of the first, then (after whatever lies between) the fragment
  of the second.
\<close>

theorem Figure_render_order:
  assumes "dicts_ok w" and "objects_ok w"
  shows "\<exists>axesJS.
           list_all2 (\<lambda>a js. Axes_render T a = Inr js) (axes (fig w)) axesJS \<and>
           Figure_render T w =
             Inr (datasource_js T (map (\<lambda>(k, b). (k, toJson T b)) (dataDict (fig w))) @
                  materials_js T
                    (map (\<lambda>(k, m). (k, Material_render T m)) (materialDict (fig w))) @
                  figure_js T (ID (fig w)) @
                  concat axesJS) \<and>
           (\<forall>i j. i < j \<and> j < length axesJS \<longrightarrow>
              (\<exists>pre mid post.
                 pre = datasource_js T (map (\<lambda>(k, b). (k, toJson T b)) (dataDict (fig w))) @
                       materials_js T
                         (map (\<lambda>(k, m). (k, Material_render T m)) (materialDict (fig w))) @
                       figure_js T (ID (fig w)) @ concat (take i axesJS) \<and>
                 mid = concat (drop (Suc i) (take j axesJS)) \<and>
                 post = concat (drop (Suc j) axesJS) \<and>
                 Figure_render T w = Inr (pre @ axesJS ! i @ mid @ axesJS ! j @ post)))"
proof -
  from assms(2) have "list_all (\<lambda>a. \<exists>js. Axes_render T a = Inr js) (axes (fig w))"
    by (simp add: objects_ok_def list_all_iff Axes_render_succeeds)
  from render_each_succeeds [OF this] obtain axesJS where
    each: "render_each (Axes_render T) (axes (fig w)) = Inr axesJS" ..
  then have all2: "list_all2 (\<lambda>a js. Axes_render T a = Inr js) (axes (fig w)) axesJS"
    by (simp add: render_each_Inr_iff)
  let ?dataJS = "datasource_js T (map (\<lambda>(k, b). (k, toJson T b)) (dataDict (fig w)))"
  let ?materialJS =
    "materials_js T (map (\<lambda>(k, m). (k, Material_render T m)) (materialDict (fig w)))"
  let ?figJS = "figure_js T (ID (fig w))"
  from assms(1) each have out:
    "Figure_render T w = Inr (?dataJS @ ?materialJS @ ?figJS @ concat axesJS)"
    by (simp add: Figure_render_def dicts_ok_def dict_of_items_distinct)
  have order: "Figure_render T w =
                 Inr ((?dataJS @ ?materialJS @ ?figJS @ concat (take i axesJS)) @ axesJS ! i @
                      concat (drop (Suc i) (take j axesJS)) @ axesJS ! j @
                      concat (drop (Suc j) axesJS))"
    if "i < j" and "j < length axesJS" for i j
    using out concat_two_fragments [OF that] by simp
  show ?thesis
  proof (intro exI [of _ axesJS] conjI allI impI)
    show "list_all2 (\<lambda>a js. Axes_render T a = Inr js) (axes (fig w)) axesJS" by (rule all2)
    show "Figure_render T w = Inr (?dataJS @ ?materialJS @ ?figJS @ concat axesJS)" by (rule out)
  next
    fix i j
    assume "i < j \<and> j < length axesJS"
    then have "Figure_render T w =
                 Inr ((?dataJS @ ?materialJS @ ?figJS @ concat (take i axesJS)) @ axesJS ! i @
                      concat (drop (Suc i) (take j axesJS)) @ axesJS ! j @
                      concat (drop (Suc j) axesJS))"
      using order by blast
    then show "\<exists>pre mid post.
                 pre = ?dataJS @ ?materialJS @ ?figJS @ concat (take i axesJS) \<and>
                 mid = concat (drop (Suc i) (take j axesJS)) \<and>
                 post = concat (drop (Suc j) axesJS) \<and>
                 Figure_render T w = Inr (pre @ axesJS ! i @ mid @ axesJS ! j @ post)"
      by simp
  qed
qed

theorem Figure_render_order_witness:
  "dicts_ok world8 \<and> objects_ok world8 \<and>
   Figure_render T0 world8 =
     Inr (''DATA uu:[..] uuuu:[..] '' @ ''MATERIALS uuu:{..} m1:{..} '' @ ''FIGURE u '' @
          concat [''AXES scatter uu uuu '', ''AXES surface uuuu m1 '']) \<and>
   (\<exists>axesJS. list_all2 (\<lambda>a js. Axes_render T0 a = Inr js) (axes (fig world8)) axesJS \<and>
      (0::nat) < 1 \<and> 1 < length axesJS \<and>
      (\<exists>pre mid post.
         Figure_render T0 world8 = Inr (pre @ axesJS ! 0 @ mid @ axesJS ! 1 @ post)))"
proof -
  have h1: "dicts_ok world8" by code_simp
  have h2: "objects_ok world8" by code_simp
  have out: "Figure_render T0 world8 =
     Inr (''DATA uu:[..] uuuu:[..] '' @ ''MATERIALS uuu:{..} m1:{..} '' @ ''FIGURE u '' @
          concat [''AXES scatter uu uuu '', ''AXES surface uuuu m1 ''])"
    by code_simp
  have len: "length (axes (fig world8)) = 2" by code_simp
  from Figure_render_order [OF h1 h2, of T0] obtain axesJS where
    all2: "list_all2 (\<lambda>a js. Axes_render T0 a = Inr js) (axes (fig world8)) axesJS"
    and order: "\<forall>i j. i < j \<and> j < length axesJS \<longrightarrow>
              (\<exists>pre mid post.
                 Figure_render T0 world8 = Inr (pre @ axesJS ! i @ mid @ axesJS ! j @ post))"
    by blast
  from all2 len have l: "1 < length axesJS"
    by (simp add: list_all2_lengthD [symmetric])
  with order have "\<exists>pre mid post.
      Figure_render T0 world8 = Inr (pre @ axesJS ! 0 @ mid @ axesJS ! 1 @ post)"
    by (meson zero_less_one)
  with h1 h2 out all2 l show ?thesis by blast
qed

section \<open>Well-formed states are kept by the calls\<close>

text \<open>
  The two conditions under which rendering was described hold for a new figure and are
  kept by every call that adds no alien render object: they hold in every state that a
  client reaches through the methods of the module.
\<close>

lemma init_world_ok: "dicts_ok (init_world gen) \<and> objects_ok (init_world gen)"
  by (simp add: init_world_def Figure_init_def dicts_ok_def objects_ok_def)

lemma dicts_ok_same:
  "dataDict (fig w') = dataDict (fig w) \<Longrightarrow> materialDict (fig w') = materialDict (fig w) \<Longrightarrow>
   dicts_ok w' = dicts_ok w"
  by (simp add: dicts_ok_def)

lemma objects_ok_same: "axes (fig w') = axes (fig w) \<Longrightarrow> objects_ok w' = objects_ok w"
  by (simp add: objects_ok_def)

lemma addData_dicts_ok:
  assumes "dicts_ok w" and "Figure_addData gen b w = Some (r, w')"
  shows "dicts_ok w'"
  using assms addData_keys_distinct [of w gen b r w'] addData_frame [OF assms(2)]
  by (simp add: dicts_ok_def)

lemma addMaterial_dicts_ok:
  assumes "dicts_ok w" and "Figure_addMaterial m w = (r, w')"
  shows "dicts_ok w'"
proof (cases "isinstance_Material m \<and> find_is (materialDict (fig w)) m = None")
  case True
  with addMaterial_new [of m w] assms(2) obtain mID where
    "materialDict (fig w') = setitem (materialDict (fig w)) mID m"
    and "dataDict (fig w') = dataDict (fig w)" by auto
  with assms(1) show ?thesis by (simp add: dicts_ok_def distinct_setitem)
next
  case False
  with assms(2) have "w' = w"
    by (auto simp: Figure_addMaterial_def split: if_splits option.splits)
  with assms(1) show ?thesis by simp
qed

lemma RenderObject_init_dicts_ok:
  assumes ok: "dicts_ok w" and init: "RenderObject_init mk c gen v kwargs w = Some (r, w')"
  shows "dicts_ok w'"
  using RenderObject_init_result [OF init]
proof (elim disjE exE conjE)
  fix k
  assume "w' = w"
  with ok show ?thesis by simp
next
  fix e
  assume "Figure_addData gen v w = Some (Inl e, w')"
  with ok show ?thesis by (rule addData_dicts_ok)
next
  fix dataID w1 dflt w2 r2
  assume a: "Figure_addData gen v w = Some (Inr dataID, w1)"
    and n: "new_Material c gen w1 = (dflt, w2)"
    and m: "Figure_addMaterial (pop_default kwargs ''material'' dflt) w2 = (r2, w')"
  from ok a have "dicts_ok w1" by (rule addData_dicts_ok)
  with new_Material_frame [OF n] have "dicts_ok w2" by (simp add: dicts_ok_def)
  then show ?thesis using m by (rule addMaterial_dicts_ok)
qed

lemma append_renderObject_objects_ok:
  assumes "objects_ok w" and "isinstance_Material (material_of obj)"
  shows "objects_ok (append_renderObject i obj w)"
proof (cases "i < length (axes (fig w))")
  case True
  let ?P = "\<lambda>a. list_all (\<lambda>obj. isinstance_Material (material_of obj)) (renderObjects a)"
  from assms(1) have all: "\<forall>a \<in> set (axes (fig w)). ?P a"
    by (simp add: objects_ok_def list_all_iff)
  with True have "?P (axes (fig w) ! i)" by simp
  with assms(2) have new: "?P ((axes (fig w) ! i)
      \<lparr>renderObjects := renderObjects (axes (fig w) ! i) @ [obj]\<rparr>)"
    by simp
  have "\<forall>a \<in> set ((axes (fig w))[i := (axes (fig w) ! i)
      \<lparr>renderObjects := renderObjects (axes (fig w) ! i) @ [obj]\<rparr>]). ?P a"
  proof
    fix a
    assume "a \<in> set ((axes (fig w))[i := (axes (fig w) ! i)
      \<lparr>renderObjects := renderObjects (axes (fig w) ! i) @ [obj]\<rparr>])"
    then have "a = (axes (fig w) ! i)\<lparr>renderObjects := renderObjects (axes (fig w) ! i) @ [obj]\<rparr>
               \<or> a \<in> set (axes (fig w))"
      using set_update_subset_insert by fastforce
    with new all show "?P a" by blast
  qed
  then show ?thesis
    by (simp add: objects_ok_def append_renderObject_def list_all_iff)
next
  case False
  then have "length (axes (fig w)) \<le> i" by simp
  with assms(1) show ?thesis
    by (simp add: objects_ok_def append_renderObject_def list_update_beyond)
qed

lemma RenderObject_init_keeps_ok:
  assumes ok: "dicts_ok w \<and> objects_ok w"
    and init: "RenderObject_init mk c gen v kwargs w = Some (r, w1)"
    and mk: "\<And>d m. material_of (mk d m) = m"
  shows "dicts_ok w1 \<and> objects_ok w1 \<and>
         (\<forall>obj. r = Inr obj \<longrightarrow> isinstance_Material (material_of obj))"
proof (intro conjI allI impI)
  from ok init show "dicts_ok w1" by (blast intro: RenderObject_init_dicts_ok)
  from RenderObject_init_frame [OF init] ok show "objects_ok w1"
    by (simp add: objects_ok_same [of w1 w])
next
  fix obj
  assume "r = Inr obj"
  with init RenderObject_init_Inr [of mk c gen v kwargs w obj w1] mk
  show "isinstance_Material (material_of obj)" by auto
qed

lemma scatter_keeps_ok:
  assumes ok: "dicts_ok w \<and> objects_ok w"
    and call: "Axes_scatter gen i v kwargs w = Some (r, w')"
  shows "dicts_ok w' \<and> objects_ok w'"
proof -
  from call consider "w' = w"
    | e where "Scatter_init gen v kwargs w = Some (Inl e, w')"
    | obj w1 where "Scatter_init gen v kwargs w = Some (Inr obj, w1)"
        and "w' = append_renderObject i obj w1"
    by (auto simp: Axes_scatter_def split: if_splits option.splits sum.splits)
  then show ?thesis
  proof cases
    case 1
    with ok show ?thesis by simp
  next
    case 2
    with RenderObject_init_keeps_ok [OF ok, of Scatter PointMaterial gen v kwargs "Inl e" w']
    show ?thesis by (simp add: Scatter_init_def)
  next
    case 3
    with RenderObject_init_keeps_ok [OF ok, of Scatter PointMaterial gen v kwargs "Inr obj" w1]
    have "dicts_ok w1" and "objects_ok w1" and "isinstance_Material (material_of obj)"
      by (simp_all add: Scatter_init_def)
    with 3(2) show ?thesis
      by (simp add: append_renderObject_objects_ok
          dicts_ok_same [of "append_renderObject i obj w1" w1] append_renderObject_frame)
  qed
qed

lemma surface_keeps_ok:
  assumes ok: "dicts_ok w \<and> objects_ok w"
    and call: "Axes_surface gen i v kwargs w = Some (r, w')"
  shows "dicts_ok w' \<and> objects_ok w'"
proof -
  from call consider "w' = w"
    | e where "Surface_init gen v kwargs w = Some (Inl e, w')"
    | obj w1 where "Surface_init gen v kwargs w = Some (Inr obj, w1)"
        and "w' = append_renderObject i obj w1"
    by (auto simp: Axes_surface_def split: if_splits option.splits sum.splits)
  then show ?thesis
  proof cases
    case 1
    with ok show ?thesis by simp
  next
    case 2
    with RenderObject_init_keeps_ok [OF ok, of Surface WireframeMaterial gen v kwargs "Inl e" w']
    show ?thesis by (simp add: Surface_init_def)
  next
    case 3
    with RenderObject_init_keeps_ok [OF ok, of Surface WireframeMaterial gen v kwargs "Inr obj" w1]
    have "dicts_ok w1" and "objects_ok w1" and "isinstance_Material (material_of obj)"
      by (simp_all add: Surface_init_def)
    with 3(2) show ?thesis
      by (simp add: append_renderObject_objects_ok
          dicts_ok_same [of "append_renderObject i obj w1" w1] append_renderObject_frame)
  qed
qed

lemma exec_keeps_ok:
  assumes ok: "dicts_ok w \<and> objects_ok w" and c: "call_ok c" and step: "exec gen c w = Some w'"
  shows "dicts_ok w' \<and> objects_ok w'"
proof (cases c)
  case (AddData b)
  with step obtain r where a: "Figure_addData gen b w = Some (r, w')" by auto
  from addData_dicts_ok [OF _ a] addData_frame [OF a] ok show ?thesis
    by (simp add: objects_ok_same [of w' w])
next
  case (AddMaterial m)
  with step obtain r where a: "Figure_addMaterial m w = (r, w')"
    by (cases "Figure_addMaterial m w") auto
  from addMaterial_dicts_ok [OF _ a] addMaterial_frame [OF a] ok show ?thesis
    by (simp add: objects_ok_same [of w' w])
next
  case (AddAxes kwargs)
  with step ok show ?thesis
    by (auto simp: Figure_addAxes_def Axes_new_def dicts_ok_def objects_ok_def Axes_init_def
        split: sum.splits option.splits)
next
  case (CallScatter i v kwargs)
  with step obtain r where "Axes_scatter gen i v kwargs w = Some (r, w')" by auto
  with ok show ?thesis by (rule scatter_keeps_ok)
next
  case (CallSurface i v kwargs)
  with step obtain r where "Axes_surface gen i v kwargs w = Some (r, w')" by auto
  with ok show ?thesis by (rule surface_keeps_ok)
next
  case (AddRenderObject i obj)
  with step c have "w' = append_renderObject i obj w" and "isinstance_Material (material_of obj)"
    by (auto simp: Axes_addRenderObject_def split: if_splits)
  with ok show ?thesis
    by (simp add: append_renderObject_objects_ok
        dicts_ok_same [of "append_renderObject i obj w" w] append_renderObject_frame)
next
  case (SetID v)
  with step ok show ?thesis by (auto simp: Figure_ID_set_def dicts_ok_def objects_ok_def)
next
  case (SetFigureData v)
  with step ok show ?thesis by (auto simp: Figure_data_set_def)
next
  case (SetAxesData v)
  with step ok show ?thesis by (auto simp: Axes_data_set_def)
next
  case DataClear
  with step ok show ?thesis
    by (auto simp: Figure_data_get_def dicts_ok_def objects_ok_def)
next
  case (DataDelItem k)
  with step ok show ?thesis
    by (auto simp: Figure_data_get_def delitem_def dicts_ok_def objects_ok_def
        distinct_map_filter split: sum.splits if_splits)
next
  case (DataSetItem k v)
  with step ok show ?thesis
    by (auto simp: Figure_data_get_def dicts_ok_def objects_ok_def distinct_setitem)
qed

lemma run_keeps_ok:
  "dicts_ok w \<and> objects_ok w \<Longrightarrow> list_all call_ok cs \<Longrightarrow> run gen cs w = Some w' \<Longrightarrow>
   dicts_ok w' \<and> objects_ok w'"
proof (induction cs arbitrary: w)
  case Nil
  then show ?case by simp
next
  case (Cons c cs)
  from Cons.prems(3) obtain w1 where
    step: "exec gen c w = Some w1" and rest: "run gen cs w1 = Some w'"
    by (auto split: option.splits)
  from Cons.prems(2) have c: "call_ok c" and cs: "list_all call_ok cs" by simp_all
  from exec_keeps_ok [OF Cons.prems(1) c step] have "dicts_ok w1 \<and> objects_ok w1" .
  from Cons.IH [OF this cs rest] show ?case .
qed

lemma reachable_ok:
  "list_all call_ok cs \<Longrightarrow> run gen cs (init_world gen) = Some w \<Longrightarrow> dicts_ok w \<and> objects_ok w"
  using run_keeps_ok [OF init_world_ok] by blast

end
